theory Spec2Isabelle
  imports Complex_Main "HOL-Library.Product_Lexorder" "HOL-Library.Multiset"
begin

section \<open>Strings\<close>

text \<open>
  A Python \<open>str\<close> is a sequence of Unicode code points; it is modelled as a list of
  code points.  ASCII literals are written with \<open>u\<close>, Cyrillic literals of the source
  as lists of code points (with a transliteration beside them).
\<close>

type_synonym pystr = "nat list"

definition u :: "string \<Rightarrow> pystr" where
  "u s = map of_char s"

section \<open>Domain enums (app/domain/value_objects/enums.py)\<close>

datatype TicketType =
  COMPLAINT | DATA_CHANGE | CONSULTATION | CLAIM | APP_MALFUNCTION | FRAUD | SPAM

datatype Sentiment = POSITIVE | NEUTRAL | NEGATIVE

datatype Language = KZ | ENG | RU

datatype Segment = MASS | VIP | PRIORITY

datatype Position = SPECIALIST | SENIOR_SPECIALIST | CHIEF_SPECIALIST

datatype GeoStatus = PENDING | RESOLVED | FAILED | ABROAD

section \<open>RequiredSkillsPolicy (app/domain/policies/required_skills.py)\<close>

record SkillRequirement =
  required_skills :: "pystr set"
  min_position :: "Position option"

definition determine_required_skills ::
  "Segment \<Rightarrow> TicketType \<Rightarrow> Language \<Rightarrow> SkillRequirement" where
  "determine_required_skills segment ticket_type language =
     (let skills0 = {};
          skills1 = (if segment = VIP \<or> segment = PRIORITY
                     then insert (u ''VIP'') skills0 else skills0);
          min_pos = (if ticket_type = DATA_CHANGE then Some CHIEF_SPECIALIST else None);
          skills2 = (if language = KZ then insert (u ''KZ'') skills1
                     else if language = ENG then insert (u ''ENG'') skills1
                     else skills1)
      in \<lparr>required_skills = skills2, min_position = min_pos\<rparr>)"

definition manager_satisfies ::
  "pystr set \<Rightarrow> Position \<Rightarrow> SkillRequirement \<Rightarrow> bool" where
  "manager_satisfies manager_skills manager_position requirement =
     (if \<not> (required_skills requirement \<subseteq> manager_skills) then False
      else if min_position requirement \<noteq> None
              \<and> min_position requirement = Some CHIEF_SPECIALIST
              \<and> manager_position \<noteq> CHIEF_SPECIALIST then False
      else True)"

section \<open>GeoPoint (app/domain/value_objects/geo_point.py)\<close>

text \<open>
  Python floats are idealised as real numbers: \<open>math.sin\<close>, \<open>math.cos\<close>,
  \<open>math.sqrt\<close> and \<open>math.atan2\<close> are the exact functions.
\<close>

record GeoPoint =
  latitude :: real
  longitude :: real

definition radians :: "real \<Rightarrow> real" where
  "radians x = x * pi / 180"

definition atan2 :: "real \<Rightarrow> real \<Rightarrow> real" where
  "atan2 y x =
     (if 0 < x then arctan (y / x)
      else if x < 0 \<and> 0 \<le> y then arctan (y / x) + pi
      else if x < 0 \<and> y < 0 then arctan (y / x) - pi
      else if 0 < y then pi / 2
      else if y < 0 then - (pi / 2)
      else 0)"

definition haversine_km :: "GeoPoint \<Rightarrow> GeoPoint \<Rightarrow> real" where
  "haversine_km self other =
     (let earth_radius_km = 6371;
          lat1 = radians (latitude self);
          lat2 = radians (latitude other);
          dlat = radians (latitude other - latitude self);
          dlon = radians (longitude other - longitude self);
          a = (sin (dlat / 2))\<^sup>2 + cos lat1 * cos lat2 * (sin (dlon / 2))\<^sup>2;
          c = 2 * atan2 (sqrt a) (sqrt (1 - a))
      in earth_radius_km * c)"

text \<open>\<open>round(x, 2)\<close>: to the nearest multiple of 0.01, ties to the even one.\<close>

definition round_half_even :: "real \<Rightarrow> int" where
  "round_half_even x =
     (let f = \<lfloor>x\<rfloor>; d = x - of_int f
      in if d < 1 / 2 then f
         else if 1 / 2 < d then f + 1
         else if even f then f else f + 1)"

definition py_round2 :: "real \<Rightarrow> real" where
  "py_round2 x = of_int (round_half_even (x * 100)) / 100"

section \<open>Entities (app/domain/entities)\<close>

text \<open>
  Field names carry a prefix per entity, since record fields share one name space.
  The identifiers of persisted offices and managers are integers (the entities the
  pipeline receives come from the repositories).
\<close>

record Office =
  o_id :: int
  o_name :: pystr
  o_address :: pystr
  o_location :: "GeoPoint option"

record Manager =
  m_id :: int
  m_name :: pystr
  m_position :: Position
  m_office_id :: int
  m_skills :: "pystr set"
  m_current_load :: int

definition is_chief_specialist :: "Manager \<Rightarrow> bool" where
  "is_chief_specialist self = (m_position self = CHIEF_SPECIALIST)"

section \<open>Exceptions\<close>

text \<open>
  A raised Python exception is a value: its class and the text \<open>str(e)\<close>.
  Functions that can raise return \<open>exn + 'a\<close>, with \<open>Inl\<close> for the exception.
\<close>

datatype exn = ValueError pystr | IntegrityError pystr | OtherError pystr

fun str_of :: "exn \<Rightarrow> pystr" where
  "str_of (ValueError m) = m"
| "str_of (IntegrityError m) = m"
| "str_of (OtherError m) = m"

section \<open>Substring test\<close>

fun starts_with :: "'a list \<Rightarrow> 'a list \<Rightarrow> bool" where
  "starts_with [] ys = True"
| "starts_with (x # xs) [] = False"
| "starts_with (x # xs) (y # ys) = (x = y \<and> starts_with xs ys)"

text \<open>\<open>py_in p t\<close> is Python's \<open>p in t\<close> on strings.\<close>

fun py_in :: "'a list \<Rightarrow> 'a list \<Rightarrow> bool" where
  "py_in p [] = (p = [])"
| "py_in p (y # ys) = (starts_with p (y # ys) \<or> py_in p ys)"

section \<open>OfficeSelectionPolicy (app/domain/policies/office_selection.py)\<close>

definition ASTANA_HUB :: pystr where
  \<comment> \<open>"Astana" in Cyrillic\<close>
  "ASTANA_HUB = [1040, 1089, 1090, 1072, 1085, 1072]"

definition ALMATY_HUB :: pystr where
  \<comment> \<open>"Almaty" in Cyrillic\<close>
  "ALMATY_HUB = [1040, 1083, 1084, 1072, 1090, 1099]"

text \<open>
  The reason text is an f-string; it is kept as the template with its holes filled:
  \<open>NearestOffice name d\<close> is "Nearest office: name (d km)", with \<open>d\<close> the unrounded
  distance printed with one decimal; \<open>Fallback5050 hub\<close> is "Fallback 50/50 -> hub
  (round-robin)"; \<open>FallbackAll name\<close> is "Fallback -> name (round-robin across all
  offices)".
\<close>

datatype Reason = NearestOffice pystr real | Fallback5050 pystr | FallbackAll pystr

record OfficeSelection =
  sel_office :: Office
  sel_distance_km :: "real option"
  sel_fallback_used :: bool
  sel_reason :: Reason

fun candidates :: "GeoPoint \<Rightarrow> Office list \<Rightarrow> (Office \<times> real) list" where
  "candidates client_location [] = []"
| "candidates client_location (o' # offices) =
     (case o_location o' of
        None \<Rightarrow> candidates client_location offices
      | Some loc \<Rightarrow> (o', haversine_km client_location loc) # candidates client_location offices)"

text \<open>
  \<open>min(xs, key=f)\<close> walks the list and replaces the best element only by a strictly
  smaller one, so the first minimal element is returned.
\<close>

fun min_key_from :: "('a \<Rightarrow> 'k::linorder) \<Rightarrow> 'a \<Rightarrow> 'a list \<Rightarrow> 'a" where
  "min_key_from f best [] = best"
| "min_key_from f best (x # xs) =
     (if f x < f best then min_key_from f x xs else min_key_from f best xs)"

definition select_nearest_office :: "GeoPoint \<Rightarrow> Office list \<Rightarrow> exn + OfficeSelection" where
  "select_nearest_office client_location offices =
     (case candidates client_location offices of
        [] \<Rightarrow> Inl (ValueError (u ''No offices with known locations available''))
      | c # cs \<Rightarrow>
          (let (best_office, best_distance) = min_key_from snd c cs
           in Inr \<lparr>sel_office = best_office,
                    sel_distance_km = Some (py_round2 best_distance),
                    sel_fallback_used = False,
                    sel_reason = NearestOffice (o_name best_office) best_distance\<rparr>))"

definition hub_step :: "(pystr \<rightharpoonup> Office) \<Rightarrow> Office \<Rightarrow> (pystr \<rightharpoonup> Office)" where
  "hub_step hub_map office =
     (let hub_map1 = (if py_in ASTANA_HUB (o_name office)
                      then hub_map(ASTANA_HUB \<mapsto> office) else hub_map);
          hub_map2 = (if py_in ALMATY_HUB (o_name office)
                      then hub_map1(ALMATY_HUB \<mapsto> office) else hub_map1)
      in hub_map2)"

definition select_fallback_office :: "int \<Rightarrow> Office list \<Rightarrow> exn + OfficeSelection" where
  "select_fallback_office counter offices =
     (if offices = [] then Inl (ValueError (u ''No offices available for fallback''))
      else
        (let hub_map = foldl hub_step Map.empty offices
         in case (hub_map ASTANA_HUB, hub_map ALMATY_HUB) of
              (Some astana, Some almaty) \<Rightarrow>
                (if counter mod 2 = 0
                 then Inr \<lparr>sel_office = astana, sel_distance_km = None,
                           sel_fallback_used = True, sel_reason = Fallback5050 ASTANA_HUB\<rparr>
                 else Inr \<lparr>sel_office = almaty, sel_distance_km = None,
                           sel_fallback_used = True, sel_reason = Fallback5050 ALMATY_HUB\<rparr>)
            | _ \<Rightarrow>
                (let sorted_offices = sort_key o_id offices;
                     chosen = sorted_offices ! nat (counter mod int (length sorted_offices))
                 in Inr \<lparr>sel_office = chosen, sel_distance_km = None,
                          sel_fallback_used = True, sel_reason = FallbackAll (o_name chosen)\<rparr>)))"

section \<open>RoundRobinPolicy (app/domain/policies/round_robin.py)\<close>

definition load_id_key :: "Manager \<Rightarrow> int \<times> int" where
  "load_id_key m = (m_current_load m, m_id m)"

definition pick_next :: "Manager list \<Rightarrow> int \<Rightarrow> exn + (Manager \<times> int)" where
  "pick_next cands counter =
     (if cands = [] then Inl (ValueError (u ''Cannot pick from an empty candidate list''))
      else
        (let sorted_candidates = sort_key load_id_key cands;
             index = counter mod int (length sorted_candidates);
             chosen = sorted_candidates ! nat index
         in Inr (chosen, counter + 1)))"

text \<open>
  Successive picks from a fixed list, the counter handed from one pick to the next
  (the loop of tests/unit/domain/test\_round\_robin\_policy.py).
\<close>

fun successive_picks :: "Manager list \<Rightarrow> int \<Rightarrow> nat \<Rightarrow> exn + Manager list" where
  "successive_picks cands counter 0 = Inr []"
| "successive_picks cands counter (Suc n) =
     (case pick_next cands counter of
        Inl e \<Rightarrow> Inl e
      | Inr (chosen, counter') \<Rightarrow>
          (case successive_picks cands counter' n of
             Inl e \<Rightarrow> Inl e
           | Inr rest \<Rightarrow> Inr (chosen # rest)))"

section \<open>Concrete inputs\<close>

text \<open>Two offices at the same place, and the two hubs with a third office.\<close>

definition office_A :: Office where
  "office_A = \<lparr>o_id = 1, o_name = u ''A'', o_address = u ''a'',
        o_location = Some \<lparr>latitude = 43, longitude = 77\<rparr>\<rparr>"

definition office_B :: Office where
  "office_B = \<lparr>o_id = 2, o_name = u ''B'', o_address = u ''b'',
        o_location = Some \<lparr>latitude = 43, longitude = 77\<rparr>\<rparr>"

definition office_almaty :: Office where
  "office_almaty = \<lparr>o_id = 1, o_name = ALMATY_HUB, o_address = u ''a'', o_location = None\<rparr>"

definition office_astana :: Office where
  "office_astana = \<lparr>o_id = 2, o_name = ASTANA_HUB, o_address = u ''b'', o_location = None\<rparr>"

definition office_other :: Office where
  "office_other = \<lparr>o_id = 3, o_name = u ''Karaganda'', o_address = u ''c'', o_location = None\<rparr>"

text \<open>A manager with a given id and load (the \<open>_mgr\<close> helper of the policy tests).\<close>

definition mgr :: "int \<Rightarrow> int \<Rightarrow> Manager" where
  "mgr mid load = \<lparr>m_id = mid, m_name = u ''M'', m_position = SPECIALIST, m_office_id = 1,
      m_skills = {}, m_current_load = load\<rparr>"

section \<open>Library functions of Python\<close>

text \<open>
  \<open>str.isspace\<close> on a code point, and \<open>str.strip()\<close>.
\<close>

definition isspace :: "nat \<Rightarrow> bool" where
  "isspace c = ((9 \<le> c \<and> c \<le> 13) \<or> (28 \<le> c \<and> c \<le> 32) \<or> c = 133 \<or> c = 160
                \<or> c = 5760 \<or> (8192 \<le> c \<and> c \<le> 8202) \<or> c = 8232 \<or> c = 8233
                \<or> c = 8239 \<or> c = 8287 \<or> c = 12288)"

definition strip :: "pystr \<Rightarrow> pystr" where
  "strip s = rev (dropWhile isspace (rev (dropWhile isspace s)))"

text \<open>
  The functions of the Python library whose full Unicode behaviour is not written out
  are parameters of the model: \<open>lower\<close> is \<open>str.lower\<close>; \<open>url_search t\<close> says whether
  \<open>URL_RE.search(t)\<close> finds a match of \<open>https?://\S+\<close> (ignoring case); \<open>word_search w t\<close>
  says whether \<open>re.search\<close> finds \<open>w\<close> between word boundaries in \<open>t\<close>, ignoring case;
  \<open>int_of_str s\<close> is \<open>int(s)\<close> on a string, \<open>None\<close> when it raises ValueError.
  Every theorem about the classifier holds for all values of these parameters.
\<close>

record pylib =
  lower :: "pystr \<Rightarrow> pystr"
  url_search :: "pystr \<Rightarrow> bool"
  word_search :: "pystr \<Rightarrow> pystr \<Rightarrow> bool"
  int_of_str :: "pystr \<Rightarrow> int option"

section \<open>AIAnalysis (app/domain/entities/ai\_analysis.py)\<close>

text \<open>
  A value decoded from JSON.  \<open>JNonFinite\<close> stands for the floats NaN and the
  infinities, which \<open>json.loads\<close> accepts.  The items of \<open>JObj\<close> are those of the
  decoded dict, looked up by key.
\<close>

datatype json =
  JNull | JBool bool | JInt int | JFloat real | JNonFinite | JStr pystr
  | JArr "json list" | JObj "(pystr \<times> json) list"

text \<open>
  The summary of an analysis is whatever the reply holds under "summary" (the mapping
  does not check that it is a string), so it is kept as a JSON value.
\<close>

record AIAnalysis =
  an_id :: "int option"
  an_ticket_id :: int
  ticket_type :: TicketType
  sentiment :: Sentiment
  priority_score :: int
  language :: Language
  summary :: json
  llm_model :: "pystr option"

section \<open>Classifier (app/adapters/llm/openai\_adapter.py)\<close>

text \<open>The values of the enums, and the maps from a value back to its member.\<close>

fun TicketType_value :: "TicketType \<Rightarrow> pystr" where
  "TicketType_value COMPLAINT = [1046, 1072, 1083, 1086, 1073, 1072]"
| "TicketType_value DATA_CHANGE = [1057, 1084, 1077, 1085, 1072, 32, 1076, 1072, 1085, 1085, 1099, 1093]"
| "TicketType_value CONSULTATION = [1050, 1086, 1085, 1089, 1091, 1083, 1100, 1090, 1072, 1094, 1080, 1103]"
| "TicketType_value CLAIM = [1055, 1088, 1077, 1090, 1077, 1085, 1079, 1080, 1103]"
| "TicketType_value APP_MALFUNCTION =
     [1053, 1077, 1088, 1072, 1073, 1086, 1090, 1086, 1089, 1087, 1086, 1089, 1086, 1073, 1085, 1086, 1089, 1090, 1100, 32, 1087, 1088, 1080, 1083, 1086, 1078, 1077, 1085, 1080, 1103]"
| "TicketType_value FRAUD =
     [1052, 1086, 1096, 1077, 1085, 1085, 1080, 1095, 1077, 1089, 1082, 1080, 1077, 32, 1076, 1077, 1081, 1089, 1090, 1074, 1080, 1103]"
| "TicketType_value SPAM = [1057, 1087, 1072, 1084]"

fun Sentiment_value :: "Sentiment \<Rightarrow> pystr" where
  "Sentiment_value POSITIVE = [1055, 1086, 1079, 1080, 1090, 1080, 1074, 1085, 1099, 1081]"
| "Sentiment_value NEUTRAL = [1053, 1077, 1081, 1090, 1088, 1072, 1083, 1100, 1085, 1099, 1081]"
| "Sentiment_value NEGATIVE = [1053, 1077, 1075, 1072, 1090, 1080, 1074, 1085, 1099, 1081]"

fun Language_value :: "Language \<Rightarrow> pystr" where
  "Language_value KZ = u ''KZ''"
| "Language_value ENG = u ''ENG''"
| "Language_value RU = u ''RU''"

definition TICKET_TYPE_MAP :: "pystr \<rightharpoonup> TicketType" where
  "TICKET_TYPE_MAP = map_of (map (\<lambda>t. (TicketType_value t, t))
     [COMPLAINT, DATA_CHANGE, CONSULTATION, CLAIM, APP_MALFUNCTION, FRAUD, SPAM])"

definition SENTIMENT_MAP :: "pystr \<rightharpoonup> Sentiment" where
  "SENTIMENT_MAP = map_of (map (\<lambda>s. (Sentiment_value s, s)) [POSITIVE, NEUTRAL, NEGATIVE])"

definition LANGUAGE_MAP :: "pystr \<rightharpoonup> Language" where
  "LANGUAGE_MAP = map_of (map (\<lambda>l. (Language_value l, l)) [KZ, ENG, RU])"

text \<open>The marker tables, in the order of the source.\<close>

definition STRONG_POSITIVE :: "pystr list" where
  \<comment> \<open>"vsyo resheno", "vse resheno", "reshili", ...\<close>
  "STRONG_POSITIVE =
    [[1074, 1089, 1105, 32, 1088, 1077, 1096, 1077, 1085, 1086],
     [1074, 1089, 1077, 32, 1088, 1077, 1096, 1077, 1085, 1086],
     [1088, 1077, 1096, 1080, 1083, 1080], [1087, 1086, 1084, 1086, 1075, 1083, 1080],
     [1074, 1089, 1105, 32, 1079, 1072, 1088, 1072, 1073, 1086, 1090, 1072, 1083, 1086],
     [1074, 1089, 1077, 32, 1079, 1072, 1088, 1072, 1073, 1086, 1090, 1072, 1083, 1086],
     [1076, 1086, 1074, 1086, 1083, 1077, 1085],
     [1076, 1086, 1074, 1086, 1083, 1100, 1085, 1072],
     [1079, 1072, 1084, 1077, 1095, 1072, 1090, 1077, 1083, 1100, 1085, 1086],
     [1087, 1088, 1077, 1082, 1088, 1072, 1089, 1085, 1086],
     [1084, 1086, 1083, 1086, 1076, 1094, 1099], u ''great'', u ''well done'',
     u ''resolved'', u ''fixed'', u ''it works now'']"

definition WEAK_POSITIVE :: "pystr list" where
  \<comment> \<open>"spasibo", "sps", "rakhmet", ...\<close>
  "WEAK_POSITIVE =
    [[1089, 1087, 1072, 1089, 1080, 1073, 1086], [1089, 1087, 1089],
     [1088, 1072, 1093, 1084, 1077, 1090], u ''thank you'', u ''thanks'',
     [1073, 1083, 1072, 1075, 1086, 1076, 1072, 1088, 1102],
     [1073, 1083, 1072, 1075, 1086, 1076, 1072, 1088, 1077, 1085],
     [1073, 1083, 1072, 1075, 1086, 1076, 1072, 1088, 1085, 1072]]"

definition ISSUE_MARKERS :: "pystr list" where
  \<comment> \<open>"problem", "vopros", "podskazhite", ...\<close>
  "ISSUE_MARKERS =
    [[1087, 1088, 1086, 1073, 1083, 1077, 1084], [1074, 1086, 1087, 1088, 1086, 1089],
     [1087, 1086, 1076, 1089, 1082, 1072, 1078, 1080, 1090, 1077],
     [1087, 1086, 1084, 1086, 1075, 1080, 1090, 1077],
     [1082, 1072, 1082, 32, 1089, 1076, 1077, 1083, 1072, 1090, 1100],
     [1082, 1072, 1082, 32, 1080, 1079, 1084, 1077, 1085, 1080, 1090, 1100],
     [1085, 1077, 32, 1087, 1086, 1083, 1091, 1095, 1072, 1077, 1090, 1089, 1103],
     [1076, 1086, 1089, 1090, 1091, 1087],
     [1085, 1091, 1078, 1085, 1072, 32, 1087, 1086, 1084, 1086, 1097, 1100],
     [1082, 1086, 1085, 1089, 1091, 1083, 1100, 1090, 1072, 1094, 1080, 1103],
     [1091, 1090, 1086, 1095, 1085, 1080, 1090, 1100],
     [1088, 1072, 1079, 1098, 1103, 1089, 1085, 1080, 1090, 1100],
     [1085, 1077, 32, 1087, 1086, 1085, 1080, 1084, 1072, 1102], u ''how to'',
     u ''question'', u ''help me'', u ''issue'']"

definition FRAUD_MARKERS :: "pystr list" where
  \<comment> \<open>"moshenn", "fraud", "scam", "alayaq", "spisali dengi", "dengi propali", "nesanktsionirovan", "unauthorized"\<close>
  "FRAUD_MARKERS =
    [[1084, 1086, 1096, 1077, 1085, 1085], u ''fraud'', u ''scam'',
     [1072, 1083, 1072, 1103, 1179],
     [1089, 1087, 1080, 1089, 1072, 1083, 1080, 32, 1076, 1077, 1085, 1100, 1075, 1080],
     [1076, 1077, 1085, 1100, 1075, 1080, 32, 1087, 1088, 1086, 1087, 1072, 1083, 1080],
     [1085, 1077, 1089, 1072, 1085, 1082, 1094, 1080, 1086, 1085, 1080, 1088, 1086, 1074, 1072, 1085],
     u ''unauthorized'']"

definition BLOCKED_MARKERS :: "pystr list" where
  \<comment> \<open>"zablok", "ne mogu vojti", "scheta zablokirovany", "account blocked", "locked out"\<close>
  "BLOCKED_MARKERS =
    [[1079, 1072, 1073, 1083, 1086, 1082],
     [1085, 1077, 32, 1084, 1086, 1075, 1091, 32, 1074, 1086, 1081, 1090, 1080],
     [1089, 1095, 1077, 1090, 1072, 32, 1079, 1072, 1073, 1083, 1086, 1082, 1080, 1088, 1086, 1074, 1072, 1085, 1099],
     u ''account blocked'', u ''locked out'']"

definition spam_markers :: "pystr list" where
  \<comment> \<open>the markers looked for beside a link: "vygodnoe predlozhenie", "spetsialnye tseny", "v nalichii", ...\<close>
  "spam_markers =
    [[1074, 1099, 1075, 1086, 1076, 1085, 1086, 1077, 32, 1087, 1088, 1077, 1076, 1083, 1086, 1078, 1077, 1085, 1080, 1077],
     [1089, 1087, 1077, 1094, 1080, 1072, 1083, 1100, 1085, 1099, 1077, 32, 1094, 1077, 1085, 1099],
     [1074, 32, 1085, 1072, 1083, 1080, 1095, 1080, 1080],
     [1084, 1080, 1085, 1080, 1084, 1072, 1083, 1100, 1085, 1099, 1081, 32, 1079, 1072, 1082, 1072, 1079],
     [1086, 1090, 1075, 1088, 1091, 1079, 1082, 1072],
     [1087, 1086, 1076, 1073, 1077, 1088, 1077, 1084, 32, 1086, 1073, 1086, 1088, 1091, 1076, 1086, 1074, 1072, 1085, 1080, 1077],
     [1087, 1080, 1090, 1086, 1084, 1085, 1080, 1082],
     [1090, 1102, 1083, 1100, 1087, 1072, 1085, 1099], [1089, 1082, 1080, 1076, 1082],
     [1082, 1091, 1087, 1080, 1090, 1077],
     [1079, 1072, 1082, 1072, 1078, 1080, 1090, 1077],
     [1088, 1077, 1082, 1083, 1072, 1084, 1072]]"

definition spam_markers2 :: "pystr list" where
  \<comment> \<open>the markers looked for without a link: "spetsialnye tseny", "minimalnyj zakaz", "v nalichii", "optov", "prajs", "kommercheskoe predlozhenie"\<close>
  "spam_markers2 =
    [[1089, 1087, 1077, 1094, 1080, 1072, 1083, 1100, 1085, 1099, 1077, 32, 1094, 1077, 1085, 1099],
     [1084, 1080, 1085, 1080, 1084, 1072, 1083, 1100, 1085, 1099, 1081, 32, 1079, 1072, 1082, 1072, 1079],
     [1074, 32, 1085, 1072, 1083, 1080, 1095, 1080, 1080],
     [1086, 1087, 1090, 1086, 1074], [1087, 1088, 1072, 1081, 1089],
     [1082, 1086, 1084, 1084, 1077, 1088, 1095, 1077, 1089, 1082, 1086, 1077, 32, 1087, 1088, 1077, 1076, 1083, 1086, 1078, 1077, 1085, 1080, 1077]]"

definition strong_phrases :: "pystr list" where
  \<comment> \<open>"vernite", "trebuyu", "obman", "uzhas", ...\<close>
  "strong_phrases =
    [[1074, 1077, 1088, 1085, 1080, 1090, 1077], [1090, 1088, 1077, 1073, 1091, 1102],
     [1086, 1073, 1084, 1072, 1085], [1091, 1078, 1072, 1089],
     [1073, 1077, 1079, 1086, 1073, 1088, 1072, 1079],
     [1085, 1077, 1076, 1086, 1087, 1091, 1089, 1090, 1080, 1084, 1086],
     [1078, 1072, 1083, 1086, 1073], [1087, 1088, 1077, 1090, 1077, 1085, 1079],
     [1087, 1088, 1086, 1082, 1091, 1088, 1072, 1090, 1091, 1088],
     [1088, 1077, 1075, 1091, 1083, 1103, 1090, 1086, 1088],
     [1079, 1072, 1076, 1086, 1083, 1073, 1072, 1083],
     [1076, 1086, 1089, 1090, 1072, 1083, 1080], [1079, 1072, 1077, 1073, 1072],
     [1073, 1083, 1103, 1090, 1100], [1093, 1091, 1081], [1086, 1093, 1091, 1077],
     [1087, 1080, 1079, 1076, 1077, 1094], [1089, 1091, 1082, 1072],
     [1077, 1073, 1072, 1085], [1095, 1077, 1088, 1090], [1090, 1074, 1072, 1088, 1100]]"

definition urgent :: "pystr list" where
  \<comment> \<open>"srochno", "nemedlenno", "sejchas zhe", "urgent", "asap", "immediately"\<close>
  "urgent =
    [[1089, 1088, 1086, 1095, 1085, 1086],
     [1085, 1077, 1084, 1077, 1076, 1083, 1077, 1085, 1085, 1086],
     [1089, 1077, 1081, 1095, 1072, 1089, 32, 1078, 1077], u ''urgent'', u ''asap'',
     u ''immediately'']"

definition urgent_blocked :: "pystr list" where
  \<comment> \<open>the second list of \<open>_has_urgency\<close>: "zablok", "ne mogu vojti", "scheta zablokirovany"\<close>
  "urgent_blocked =
    [[1079, 1072, 1073, 1083, 1086, 1082],
     [1085, 1077, 32, 1084, 1086, 1075, 1091, 32, 1074, 1086, 1081, 1090, 1080],
     [1089, 1095, 1077, 1090, 1072, 32, 1079, 1072, 1073, 1083, 1086, 1082, 1080, 1088, 1086, 1074, 1072, 1085, 1099]]"

definition kz_markers :: "pystr list" where
  \<comment> \<open>"saelem", "qalaj", "men", "maghan", "zhasau", "oetinish", "rakhmet"\<close>
  "kz_markers =
    [[1089, 1241, 1083, 1077, 1084], [1179, 1072, 1083, 1072, 1081],
     [1084, 1077, 1085], [1084, 1072, 1171, 1072, 1085],
     [1078, 1072, 1089, 1072, 1091], [1257, 1090, 1110, 1085, 1110, 1096],
     [1088, 1072, 1093, 1084, 1077, 1090]]"

definition en_markers :: "pystr list" where
  \<comment> \<open>"hello", "please", "want", "need", "help", "issue", "thank you", "thanks"\<close>
  "en_markers =
    [u ''hello'', u ''please'', u ''want'', u ''need'', u ''help'', u ''issue'',
     u ''thank you'', u ''thanks'']"

definition fraud_words :: "pystr list" where
  \<comment> \<open>the keyword lists of \<open>_heuristic_fallback\<close>, in its order\<close>
  "fraud_words =
    [[1084, 1086, 1096, 1077, 1085], u ''fraud'', [1072, 1083, 1072, 1103, 1179],
     [1074, 1079, 1083, 1086, 1084], [1091, 1082, 1088, 1072, 1083, 1080],
     [1089, 1087, 1080, 1089, 1072, 1083, 1080, 32, 1076, 1077, 1085, 1100, 1075, 1080]]"

definition complaint_words :: "pystr list" where
  \<comment> \<open>"zhalob", "complaint", "shaghym"\<close>
  "complaint_words =
    [[1078, 1072, 1083, 1086, 1073], u ''complaint'', [1096, 1072, 1171, 1099, 1084]]"

definition blocked_words :: "pystr list" where
  \<comment> \<open>"zablok", "scheta zablokirovany", "ne mogu vojti", "dostup"\<close>
  "blocked_words =
    [[1079, 1072, 1073, 1083, 1086, 1082],
     [1089, 1095, 1077, 1090, 1072, 32, 1079, 1072, 1073, 1083, 1086, 1082, 1080, 1088, 1086, 1074, 1072, 1085, 1099],
     [1085, 1077, 32, 1084, 1086, 1075, 1091, 32, 1074, 1086, 1081, 1090, 1080],
     [1076, 1086, 1089, 1090, 1091, 1087]]"

definition data_change_words :: "pystr list" where
  \<comment> \<open>"smena dannykh", "izmenit", "dannye", "derekter"\<close>
  "data_change_words =
    [[1089, 1084, 1077, 1085, 1072, 32, 1076, 1072, 1085, 1085, 1099, 1093],
     [1080, 1079, 1084, 1077, 1085, 1080, 1090, 1100],
     [1076, 1072, 1085, 1085, 1099, 1077],
     [1076, 1077, 1088, 1077, 1082, 1090, 1077, 1088]]"

definition app_words :: "pystr list" where
  \<comment> \<open>"prilozhen", "app", "qosymsha", "ne rabotaet", "oshibk"\<close>
  "app_words =
    [[1087, 1088, 1080, 1083, 1086, 1078, 1077, 1085], u ''app'',
     [1179, 1086, 1089, 1099, 1084, 1096, 1072],
     [1085, 1077, 32, 1088, 1072, 1073, 1086, 1090, 1072, 1077, 1090],
     [1086, 1096, 1080, 1073, 1082]]"

definition claim_words :: "pystr list" where
  \<comment> \<open>"pretenz", "claim", "talap"\<close>
  "claim_words =
    [[1087, 1088, 1077, 1090, 1077, 1085, 1079], u ''claim'',
     [1090, 1072, 1083, 1072, 1087]]"

definition safe_lower :: "pylib \<Rightarrow> pystr \<Rightarrow> pystr" where
  "safe_lower L text = lower L text"

definition has_any_phrase :: "pystr \<Rightarrow> pystr list \<Rightarrow> bool" where
  "has_any_phrase lowered_text phrases = list_ex (\<lambda>p. py_in p lowered_text) phrases"

definition has_any_word :: "pylib \<Rightarrow> pystr \<Rightarrow> pystr list \<Rightarrow> bool" where
  "has_any_word L text words = list_ex (\<lambda>w. word_search L w text) words"

text \<open>
  \<open>t.count("http") >= 1\<close> says that "http" occurs in \<open>t\<close>; \<open>len(t)\<close> counts code
  points.
\<close>

definition looks_like_spam :: "pylib \<Rightarrow> pystr \<Rightarrow> bool" where
  "looks_like_spam L text =
     (let t = lower L text
      in if url_search L t
         then (if list_ex (\<lambda>m. py_in m t) spam_markers then True
               else if 200 < length t \<and> py_in (u ''http'') t
                       \<and> (py_in [1087, 1088, 1077, 1076, 1083, 1086, 1078] t
                            \<or> py_in [1094, 1077, 1085, 1072] t) then True
               else list_ex (\<lambda>m. py_in m t) spam_markers2)
         else list_ex (\<lambda>m. py_in m t) spam_markers2)"

text \<open>\<open>re.search(r"!{2,}", text)\<close> finds a match exactly when "!!" occurs in the text.\<close>

definition has_strong_negative_evidence :: "pylib \<Rightarrow> pystr \<Rightarrow> bool" where
  "has_strong_negative_evidence L text =
     (let t = safe_lower L text
      in if has_any_phrase t strong_phrases then True
         else if has_any_word L text [[1089, 1091, 1076]] then True
         else if py_in (u ''!!'') text then True
         else False)"

definition detect_sentiment_markers :: "pylib \<Rightarrow> pystr \<Rightarrow> Sentiment" where
  "detect_sentiment_markers L text =
     (let t = safe_lower L text
      in if looks_like_spam L text then NEUTRAL
         else
           (let has_issue = has_any_phrase t ISSUE_MARKERS;
                has_strong_pos = has_any_phrase t STRONG_POSITIVE;
                has_weak_pos = (has_any_phrase t WEAK_POSITIVE \<or> has_any_word L text [u ''THX''])
            in if has_strong_negative_evidence L text then NEGATIVE
               else if has_issue then NEUTRAL
               else if has_strong_pos \<and> \<not> has_issue then POSITIVE
               else if has_weak_pos then NEUTRAL
               else NEUTRAL))"

definition has_urgency :: "pylib \<Rightarrow> pystr \<Rightarrow> bool" where
  "has_urgency L text =
     (let t = lower L text
      in if list_ex (\<lambda>w. py_in w t) urgent then True
         else if list_ex (\<lambda>w. py_in w t) urgent_blocked then True
         else False)"

text \<open>
  \<open>_map_to_analysis\<close>.  \<open>parsed.get\<close> raises AttributeError unless \<open>parsed\<close> is a dict;
  a map's \<open>get\<close> raises TypeError on an unhashable key (a list or a dict) and gives the
  default for every other key that is not in the map; \<open>int\<close> raises on \<open>None\<close>, on a
  list or dict, on a float that is not finite, and on a string that is not an integer
  literal, and truncates a float towards zero.  \<open>None\<close> stands for a raised exception.
\<close>

fun obj_items :: "json \<Rightarrow> (pystr \<times> json) list option" where
  "obj_items (JObj kv) = Some kv"
| "obj_items _ = None"

definition dict_get :: "(pystr \<times> json) list \<Rightarrow> pystr \<Rightarrow> json \<Rightarrow> json" where
  "dict_get kv k d = (case map_of kv k of Some v \<Rightarrow> v | None \<Rightarrow> d)"

fun enum_get :: "(pystr \<rightharpoonup> 'e) \<Rightarrow> json \<Rightarrow> 'e \<Rightarrow> 'e option" where
  "enum_get m (JStr s) d = Some (case m s of Some e \<Rightarrow> e | None \<Rightarrow> d)"
| "enum_get m (JArr xs) d = None"
| "enum_get m (JObj kv) d = None"
| "enum_get m v d = Some d"

fun py_int :: "pylib \<Rightarrow> json \<Rightarrow> int option" where
  "py_int L JNull = None"
| "py_int L (JBool b) = Some (if b then 1 else 0)"
| "py_int L (JInt i) = Some i"
| "py_int L (JFloat r) = Some (if 0 \<le> r then \<lfloor>r\<rfloor> else \<lceil>r\<rceil>)"
| "py_int L JNonFinite = None"
| "py_int L (JStr s) = int_of_str L s"
| "py_int L (JArr xs) = None"
| "py_int L (JObj kv) = None"

definition map_to_analysis :: "pylib \<Rightarrow> pystr \<Rightarrow> json \<Rightarrow> AIAnalysis option" where
  "map_to_analysis L model parsed =
     (case obj_items parsed of
        None \<Rightarrow> None
      | Some kv \<Rightarrow>
         (case enum_get TICKET_TYPE_MAP (dict_get kv (u ''ticket_type'') (JStr [])) CONSULTATION of
            None \<Rightarrow> None
          | Some ticket_type' \<Rightarrow>
         (case enum_get SENTIMENT_MAP (dict_get kv (u ''sentiment'') (JStr [])) NEUTRAL of
            None \<Rightarrow> None
          | Some sentiment' \<Rightarrow>
         (case enum_get LANGUAGE_MAP (dict_get kv (u ''language'') (JStr [])) RU of
            None \<Rightarrow> None
          | Some language' \<Rightarrow>
         (case py_int L (dict_get kv (u ''priority_score'') (JInt 5)) of
            None \<Rightarrow> None
          | Some p \<Rightarrow>
              Some \<lparr>an_id = None, an_ticket_id = 0, ticket_type = ticket_type',
                    sentiment = sentiment', priority_score = max 1 (min 10 p),
                    language = language',
                    summary = dict_get kv (u ''summary'') (JStr []),
                    llm_model = Some model\<rparr>)))))"

definition spam_result :: AIAnalysis where
  \<comment> \<open>the summary is the fixed Russian sentence of the source\<close>
  "spam_result =
     \<lparr>an_id = None, an_ticket_id = 0, ticket_type = SPAM, sentiment = NEUTRAL,
      priority_score = 1, language = RU,
      summary = JStr
        [1057, 1087, 1072, 1084, 47, 1088, 1077, 1082, 1083, 1072, 1084, 1072, 46, 32, 1054, 1073, 1088, 1072, 1097, 1077, 1085, 1080, 1077, 32, 1085, 1077, 32, 1086, 1090, 1085, 1086, 1089, 1080, 1090, 1089, 1103, 32, 1082, 32, 1087, 1086, 1076, 1076, 1077, 1088, 1078, 1082, 1077, 32, 70, 114, 101, 101, 100, 111, 109, 32, 66, 114, 111, 107, 101, 114, 46],
      llm_model = Some (u ''spam-heuristic'')\<rparr>"

definition post_adjust :: "pylib \<Rightarrow> AIAnalysis \<Rightarrow> pystr \<Rightarrow> AIAnalysis" where
  "post_adjust L analysis original_text =
     (if ticket_type analysis = SPAM then analysis
      else
        (let text = strip original_text;
             t = safe_lower L text;
             strong_neg = has_strong_negative_evidence L text;
             strong_pos = has_any_phrase t STRONG_POSITIVE;
             weak_pos_only = ((has_any_phrase t WEAK_POSITIVE \<or> has_any_word L text [u ''THX''])
                              \<and> \<not> strong_pos);
             is_fraud = has_any_phrase t FRAUD_MARKERS;
             is_blocked = has_any_phrase t BLOCKED_MARKERS;
             is_urgent = has_urgency L text;
             analysis1 =
               (if is_fraud
                then analysis\<lparr>priority_score := max (priority_score analysis) 9\<rparr>
                else if is_blocked \<or> is_urgent
                then analysis\<lparr>priority_score := max (priority_score analysis) 8\<rparr>
                else analysis)
         in if strong_neg then analysis1\<lparr>sentiment := NEGATIVE\<rparr>
            else if strong_pos then analysis1\<lparr>sentiment := POSITIVE\<rparr>
            else if weak_pos_only then analysis1\<lparr>sentiment := NEUTRAL\<rparr>
            else if sentiment analysis1 = NEGATIVE then analysis1\<lparr>sentiment := NEUTRAL\<rparr>
            else analysis1))"

definition heuristic_fallback :: "pylib \<Rightarrow> pystr \<Rightarrow> AIAnalysis" where
  "heuristic_fallback L description =
     (let text = lower L description
      in if looks_like_spam L description
         then \<lparr>an_id = None, an_ticket_id = 0, ticket_type = SPAM, sentiment = NEUTRAL,
                priority_score = 1, language = RU,
                summary = JStr
                  [1057, 1087, 1072, 1084, 47, 1088, 1077, 1082, 1083, 1072, 1084, 1072, 46, 32, 1054, 1073, 1088, 1072, 1097, 1077, 1085, 1080, 1077, 32, 1085, 1077, 32, 1086, 1090, 1085, 1086, 1089, 1080, 1090, 1089, 1103, 32, 1082, 32, 1087, 1086, 1076, 1076, 1077, 1088, 1078, 1082, 1077, 46],
                llm_model = Some (u ''heuristic-fallback'')\<rparr>
         else
           (let language' =
                  (if list_ex (\<lambda>m. py_in m text) kz_markers then KZ
                   else if list_ex (\<lambda>m. py_in m text) en_markers then ENG
                   else RU);
                sentiment' = detect_sentiment_markers L description;
                (ticket_type', priority) =
                  (if list_ex (\<lambda>w. py_in w text) fraud_words then (FRAUD, 9)
                   else if list_ex (\<lambda>w. py_in w text) complaint_words then (COMPLAINT, 7)
                   else if list_ex (\<lambda>w. py_in w text) blocked_words then (COMPLAINT, 8)
                   else if list_ex (\<lambda>w. py_in w text) data_change_words then (DATA_CHANGE, 5)
                   else if list_ex (\<lambda>w. py_in w text) app_words then (APP_MALFUNCTION, 6)
                   else if list_ex (\<lambda>w. py_in w text) claim_words then (CLAIM, 7)
                   else (CONSULTATION, 4))
            in \<lparr>an_id = None, an_ticket_id = 0, ticket_type = ticket_type',
                 sentiment = sentiment', priority_score = priority, language = language',
                 summary = JStr (take 200 description),
                 llm_model = Some (u ''heuristic-fallback'')\<rparr>))"

text \<open>
  The adapter: whether the OpenAI client could be built, the API key of the settings, the
  model name and the number of attempts.  The outcome of one attempt is what the call
  and \<open>json.loads\<close> produce: \<open>ApiError\<close> when the call (or reading the first choice of
  the response) raises, \<open>NotJson\<close> when \<open>json.loads\<close> raises on the content (an absent
  content is read as the empty string, which is not JSON), \<open>Parsed j\<close> when it returns
  \<open>j\<close>.  \<open>api i\<close> is the outcome of attempt \<open>i\<close>.  Building the prompt (which may read
  image files) is not modelled.
\<close>

record adapter =
  client_available :: bool
  openai_api_key :: pystr
  model_name :: pystr
  max_retries :: int

datatype reply = ApiError | NotJson | Parsed json

fun attempts :: "pylib \<Rightarrow> pystr \<Rightarrow> (nat \<Rightarrow> reply) \<Rightarrow> nat \<Rightarrow> nat \<Rightarrow> AIAnalysis option" where
  "attempts L model api attempt 0 = None"
| "attempts L model api attempt (Suc remaining) =
     (case api attempt of
        ApiError \<Rightarrow> attempts L model api (Suc attempt) remaining
      | NotJson \<Rightarrow> attempts L model api (Suc attempt) remaining
      | Parsed parsed \<Rightarrow>
          (case map_to_analysis L model parsed of
             None \<Rightarrow> attempts L model api (Suc attempt) remaining
           | Some analysis \<Rightarrow> Some analysis))"

definition analyze_ticket ::
  "pylib \<Rightarrow> adapter \<Rightarrow> (nat \<Rightarrow> reply) \<Rightarrow> pystr \<Rightarrow> pystr option \<Rightarrow> AIAnalysis" where
  "analyze_ticket L self api description attachments =
     (if looks_like_spam L description then spam_result
      else if \<not> client_available self
      then post_adjust L (heuristic_fallback L description) description
      else if strip (openai_api_key self) = []
              \<or> py_in (u ''your-openai-api-key'') (openai_api_key self)
      then post_adjust L (heuristic_fallback L description) description
      else
        (case attempts L (model_name self) api 1 (nat (max_retries self)) of
           Some analysis \<Rightarrow> post_adjust L analysis description
         | None \<Rightarrow> post_adjust L (heuristic_fallback L description) description))"

text \<open>
  A reference instance of the library parameters, which agrees with Python on text made
  of ASCII and of the basic Cyrillic letters: lowering by code point, the URL pattern, a
  word between boundaries, and decimal integer literals.
\<close>

definition lower_cp :: "nat \<Rightarrow> nat" where
  "lower_cp c = (if 65 \<le> c \<and> c \<le> 90 then c + 32
                 else if 1040 \<le> c \<and> c \<le> 1071 then c + 32
                 else if 1024 \<le> c \<and> c \<le> 1039 then c + 80
                 else c)"

definition is_word_cp :: "nat \<Rightarrow> bool" where
  "is_word_cp c = ((48 \<le> c \<and> c \<le> 57) \<or> (65 \<le> c \<and> c \<le> 90) \<or> c = 95
                   \<or> (97 \<le> c \<and> c \<le> 122) \<or> (1024 \<le> c \<and> c \<le> 1119))"

fun url_scan :: "pystr \<Rightarrow> bool" where
  "url_scan [] = False"
| "url_scan (c # cs) =
     ((starts_with (u ''http://'') (c # cs)
         \<and> (case drop 7 (c # cs) of [] \<Rightarrow> False | d # ds \<Rightarrow> \<not> isspace d))
      \<or> (starts_with (u ''https://'') (c # cs)
         \<and> (case drop 8 (c # cs) of [] \<Rightarrow> False | d # ds \<Rightarrow> \<not> isspace d))
      \<or> url_scan cs)"

fun word_scan :: "pystr \<Rightarrow> bool \<Rightarrow> pystr \<Rightarrow> bool" where
  "word_scan w prev [] = False"
| "word_scan w prev (c # cs) =
     ((\<not> prev \<and> starts_with w (c # cs)
         \<and> (case drop (length w) (c # cs) of [] \<Rightarrow> True | d # ds \<Rightarrow> \<not> is_word_cp d))
      \<or> word_scan w (is_word_cp c) cs)"

fun digits_value :: "nat \<Rightarrow> pystr \<Rightarrow> nat option" where
  "digits_value acc [] = Some acc"
| "digits_value acc (c # cs) =
     (if 48 \<le> c \<and> c \<le> 57 then digits_value (10 * acc + (c - 48)) cs else None)"

definition int_literal :: "pystr \<Rightarrow> int option" where
  "int_literal s =
     (case strip s of
        [] \<Rightarrow> None
      | c # cs \<Rightarrow>
          (if c = 45 then (if cs = [] then None
                           else map_option (\<lambda>n. - int n) (digits_value 0 cs))
           else if c = 43 then (if cs = [] then None
                                else map_option int (digits_value 0 cs))
           else map_option int (digits_value 0 (c # cs))))"

definition ref_lib :: pylib where
  "ref_lib = \<lparr>lower = map lower_cp,
              url_search = (\<lambda>t. url_scan (map lower_cp t)),
              word_search = (\<lambda>w t. word_scan (map lower_cp w) False (map lower_cp t)),
              int_of_str = int_literal\<rparr>"

section \<open>Concrete inputs for the classifier\<close>

text \<open>
  A text with the fraud marker "fraud" and the spam marker "prajs" (price list, in
  Cyrillic), a text with the fraud marker alone, an adapter without a client and one with a
  client and key, and a reply whose ticket type and sentiment are not labels of the enums
  and whose priority is out of range.
\<close>

definition fraud_spam_text :: pystr where
  "fraud_spam_text = u ''fraud '' @ [1087, 1088, 1072, 1081, 1089]"

definition fraud_text :: pystr where
  "fraud_text = u ''card fraud''"

definition no_client :: adapter where
  "no_client = \<lparr>client_available = False, openai_api_key = [],
                 model_name = u ''gpt-4o-mini'', max_retries = 3\<rparr>"

definition with_client :: adapter where
  "with_client = \<lparr>client_available = True, openai_api_key = u ''sk-test'',
                   model_name = u ''gpt-4o-mini'', max_retries = 3\<rparr>"

definition odd_reply :: json where
  "odd_reply = JObj [(u ''ticket_type'', JStr (u ''Question'')),
                     (u ''sentiment'', JInt 3),
                     (u ''priority_score'', JInt 42)]"

section \<open>Ticket (app/domain/entities/ticket.py)\<close>

record Ticket =
  t_id :: int
  t_guid :: pystr
  t_gender :: "pystr option"
  t_birth_date :: "(int \<times> int \<times> int) option"
  t_description :: "pystr option"
  t_attachments :: "pystr option"
  t_segment :: Segment
  t_country :: "pystr option"
  t_region :: "pystr option"
  t_city :: "pystr option"
  t_street :: "pystr option"
  t_building :: "pystr option"
  t_client_location :: "GeoPoint option"
  t_geo_status :: GeoStatus

text \<open>\<open>sep.join(xs)\<close>.\<close>

fun join :: "pystr \<Rightarrow> pystr list \<Rightarrow> pystr" where
  "join sep [] = []"
| "join sep [x] = x"
| "join sep (x # y # ys) = x @ sep @ join sep (y # ys)"

text \<open>\<open>[p.strip() for p in parts if p and p.strip()]\<close>, with \<open>None\<close> for an absent part.\<close>

fun stripped_parts :: "pystr option list \<Rightarrow> pystr list" where
  "stripped_parts [] = []"
| "stripped_parts (None # ps) = stripped_parts ps"
| "stripped_parts (Some p # ps) =
     (if p \<noteq> [] \<and> strip p \<noteq> [] then strip p # stripped_parts ps else stripped_parts ps)"

text \<open>\<open>x or d\<close> on an optional string: the default for \<open>None\<close> and for the empty string.\<close>

definition or_else :: "pystr option \<Rightarrow> pystr \<Rightarrow> pystr" where
  "or_else x d = (case x of None \<Rightarrow> d | Some s \<Rightarrow> if s = [] then d else s)"

definition build_address_string :: "Ticket \<Rightarrow> pystr option" where
  "build_address_string self =
     (let street_joined = join (u '' '') (stripped_parts [t_street self, t_building self]);
          street_part = (if street_joined = [] then None else Some street_joined);
          parts = [Some (or_else (t_country self) [1050, 1072, 1079, 1072, 1093, 1089, 1090, 1072, 1085]),
                   t_region self, t_city self, street_part];
          non_empty = stripped_parts parts
      in if 1 < length non_empty then Some (join (u '', '') non_empty) else None)"

definition is_address_known :: "Ticket \<Rightarrow> bool" where
  "is_address_known self = (t_client_location self \<noteq> None)"

definition kz_identifiers :: "pystr list" where
  \<comment> \<open>the set of the source, in its written order: "almaty" (Cyrillic), "almaty", ...\<close>
  "kz_identifiers =
    [[1072, 1083, 1084, 1072, 1090, 1099], u ''almaty'',
     [1072, 1089, 1090, 1072, 1085, 1072], u ''astana'',
     [1085, 1091, 1088, 45, 1089, 1091, 1083, 1090, 1072, 1085], u ''nur-sultan'',
     [1096, 1099, 1084, 1082, 1077, 1085, 1090], u ''shymkent'',
     [1082, 1072, 1088, 1072, 1075, 1072, 1085, 1076, 1072], u ''karaganda'',
     u ''qaraghandy'', [1072, 1082, 1090, 1086, 1073, 1077], u ''aktobe'',
     u ''aqtobe'', [1090, 1072, 1088, 1072, 1079], u ''taraz'',
     [1087, 1072, 1074, 1083, 1086, 1076, 1072, 1088], u ''pavlodar'',
     [1091, 1089, 1090, 1100, 45, 1082, 1072, 1084, 1077, 1085, 1086, 1075, 1086, 1088, 1089, 1082],
     u ''ust-kamenogorsk'', u ''oskemen'', [1089, 1077, 1084, 1077, 1081], u ''semey'',
     [1072, 1090, 1099, 1088, 1072, 1091], u ''atyrau'',
     [1082, 1086, 1089, 1090, 1072, 1085, 1072, 1081], u ''kostanay'',
     [1082, 1099, 1079, 1099, 1083, 1086, 1088, 1076, 1072], u ''kyzylorda'',
     [1072, 1082, 1090, 1072, 1091], u ''aktau'', u ''aqtau'',
     [1091, 1088, 1072, 1083, 1100, 1089, 1082], u ''uralsk'', u ''oral'',
     [1087, 1077, 1090, 1088, 1086, 1087, 1072, 1074, 1083, 1086, 1074, 1089, 1082],
     u ''petropavlovsk'', u ''petropavl'',
     [1090, 1091, 1088, 1082, 1077, 1089, 1090, 1072, 1085], u ''turkestan'',
     [1082, 1086, 1082, 1096, 1077, 1090, 1072, 1091], u ''kokshetau'',
     [1090, 1072, 1083, 1076, 1099, 1082, 1086, 1088, 1075, 1072, 1085],
     u ''taldykorgan'', [1078, 1077, 1079, 1082, 1072, 1079, 1075, 1072, 1085],
     u ''zhezkazgan'', [1101, 1082, 1080, 1073, 1072, 1089, 1090, 1091, 1079],
     u ''ekibastuz'', [1090, 1077, 1084, 1080, 1088, 1090, 1072, 1091], u ''temirtau'',
     [1088, 1091, 1076, 1085, 1099, 1081], u ''rudny'',
     [1072, 1082, 1084, 1086, 1083, 1080, 1085, 1089, 1082, 1072, 1103], u ''akmola'',
     [1072, 1083, 1084, 1072, 1090, 1080, 1085, 1089, 1082, 1072, 1103],
     u ''almaty obl'', [1072, 1090, 1099, 1088, 1072, 1091, 1089, 1082, 1072, 1103],
     u ''atyrau obl'',
     [1072, 1082, 1090, 1102, 1073, 1080, 1085, 1089, 1082, 1072, 1103],
     u ''aktobe obl'', [1078, 1072, 1084, 1073, 1099, 1083, 1089, 1082, 1072, 1103],
     u ''zhambyl'',
     [1082, 1072, 1088, 1072, 1075, 1072, 1085, 1076, 1080, 1085, 1089, 1082, 1072, 1103],
     u ''karaganda obl'',
     [1082, 1086, 1089, 1090, 1072, 1085, 1072, 1081, 1089, 1082, 1072, 1103],
     u ''kostanay obl'',
     [1082, 1099, 1079, 1099, 1083, 1086, 1088, 1076, 1080, 1085, 1089, 1082, 1072, 1103],
     u ''kyzylorda obl'',
     [1084, 1072, 1085, 1075, 1080, 1089, 1090, 1072, 1091, 1089, 1082, 1072, 1103],
     u ''mangystau'', u ''mangystau obl.'',
     [1087, 1072, 1074, 1083, 1086, 1076, 1072, 1088, 1089, 1082, 1072, 1103],
     u ''pavlodar obl'',
     [1089, 1077, 1074, 1077, 1088, 1086, 45, 1082, 1072, 1079, 1072, 1093, 1089, 1090, 1072, 1085, 1089, 1082, 1072, 1103],
     u ''sko'',
     [1090, 1091, 1088, 1082, 1077, 1089, 1090, 1072, 1085, 1089, 1082, 1072, 1103],
     u ''turkestan obl'',
     [1074, 1086, 1089, 1090, 1086, 1095, 1085, 1086, 45, 1082, 1072, 1079, 1072, 1093, 1089, 1090, 1072, 1085, 1089, 1082, 1072, 1103],
     u ''vko'', [1079, 1072, 1087, 1072, 1076, 1085, 1072, 1103], u ''zko'',
     [1072, 1073, 1072, 1081, 1089, 1082, 1072, 1103], u ''abai'',
     [1091, 1083, 1099, 1090, 1072, 1091, 1089, 1082, 1072, 1103], u ''ulytau'',
     [1078, 1077, 1090, 1099, 1089, 1091, 1089, 1082, 1072, 1103], u ''zhetysu'']"

definition is_domestic :: "pylib \<Rightarrow> Ticket \<Rightarrow> bool" where
  "is_domestic L self =
     (case t_country self of
        Some (c # cs) \<Rightarrow> lower L (strip (c # cs)) = [1082, 1072, 1079, 1072, 1093, 1089, 1090, 1072, 1085]
      | _ \<Rightarrow>
         (let city_norm = (case t_city self of
                             Some (c # cs) \<Rightarrow> lower L (strip (c # cs)) | _ \<Rightarrow> []);
              region_norm = (case t_region self of
                               Some (c # cs) \<Rightarrow> lower L (strip (c # cs)) | _ \<Rightarrow> [])
          in list_ex (\<lambda>identifier. (city_norm \<noteq> [] \<and> py_in identifier city_norm)
                                  \<or> (region_norm \<noteq> [] \<and> py_in identifier region_norm))
               kz_identifiers))"

section \<open>Assignment and ProcessingResult\<close>

record Assignment =
  a_id :: "int option"
  a_ticket_id :: int
  a_manager_id :: int
  a_office_id :: int
  a_distance_km :: "real option"
  a_assignment_reason :: "Reason option"
  a_fallback_used :: bool
  a_rule_trace :: "json option"

record ProcessingResult =
  r_ticket_id :: int
  r_ticket_guid :: pystr
  r_assigned_manager :: "pystr option"
  r_assigned_office :: "pystr option"
  r_distance_km :: "real option"
  r_fallback_used :: bool
  r_error :: "pystr option"

section \<open>Ports (app/application/ports)\<close>

text \<open>
  A port call acts on the world \<open>'w\<close> outside the pipeline (database, services) and
  either returns a value or raises; in both cases it may have changed the world.  The
  ports are those methods of the eight port classes that the pipeline calls.  A port
  receives values: the id that a repository writes back into the entity it was given is
  not read by the pipeline afterwards.
\<close>

type_synonym ('a, 's) io = "'s \<Rightarrow> (exn + 'a) \<times> 's"

record 'w ports =
  llm_analyze_ticket :: "pystr \<Rightarrow> pystr option \<Rightarrow> (AIAnalysis, 'w) io"
  analytics_save :: "AIAnalysis \<Rightarrow> (AIAnalysis, 'w) io"
  geocode :: "pystr \<Rightarrow> (GeoPoint option, 'w) io"
  tickets_update :: "Ticket \<Rightarrow> (Ticket, 'w) io"
  offices_get_all :: "(Office list, 'w) io"
  rr_increment_counter :: "pystr \<Rightarrow> (int, 'w) io"
  managers_get_by_office :: "int \<Rightarrow> (Manager list, 'w) io"
  managers_get_all :: "(Manager list, 'w) io"
  assignments_save :: "Assignment \<Rightarrow> (Assignment, 'w) io"
  managers_increment_load :: "int \<Rightarrow> (unit, 'w) io"

definition io_return :: "'a \<Rightarrow> ('a, 's) io" where
  "io_return x = (\<lambda>s. (Inr x, s))"

definition io_raise :: "exn \<Rightarrow> ('a, 's) io" where
  "io_raise e = (\<lambda>s. (Inl e, s))"

definition io_bind :: "('a, 's) io \<Rightarrow> ('a \<Rightarrow> ('b, 's) io) \<Rightarrow> ('b, 's) io" where
  "io_bind m f = (\<lambda>s. case m s of (Inl e, s') \<Rightarrow> (Inl e, s') | (Inr a, s') \<Rightarrow> f a s')"

definition of_result :: "exn + 'a \<Rightarrow> ('a, 's) io" where
  "of_result r = (case r of Inl e \<Rightarrow> io_raise e | Inr a \<Rightarrow> io_return a)"

text \<open>
  The state of one run of the pipeline is the ticket object, which the pipeline mutates,
  and the world.
\<close>

definition port :: "('a, 'w) io \<Rightarrow> ('a, Ticket \<times> 'w) io" where
  "port p = (\<lambda>(ticket, w). case p w of (r, w') \<Rightarrow> (r, (ticket, w')))"

definition get_ticket :: "(Ticket, Ticket \<times> 'w) io" where
  "get_ticket = (\<lambda>(ticket, w). (Inr ticket, (ticket, w)))"

definition modify_ticket :: "(Ticket \<Rightarrow> Ticket) \<Rightarrow> (unit, Ticket \<times> 'w) io" where
  "modify_ticket f = (\<lambda>(ticket, w). (Inr (), (f ticket, w)))"

section \<open>ProcessTicketUseCase (app/application/use\_cases/process\_ticket.py)\<close>

text \<open>\<open>str(n)\<close> of an integer, for the f-string of the round-robin key.\<close>

fun nat_digits :: "nat \<Rightarrow> pystr" where
  "nat_digits n = (if n < 10 then [48 + n] else nat_digits (n div 10) @ [48 + n mod 10])"

definition str_int :: "int \<Rightarrow> pystr" where
  "str_int i = (if i < 0 then 45 # nat_digits (nat (- i)) else nat_digits (nat i))"

definition int_bool :: "bool \<Rightarrow> int" where
  "int_bool b = (if b then 1 else 0)"

definition rr_key_of :: "OfficeSelection \<Rightarrow> SkillRequirement \<Rightarrow> AIAnalysis \<Rightarrow> pystr" where
  "rr_key_of office_sel requirement analysis =
     u ''office-'' @ str_int (o_id (sel_office office_sel)) @ u ''|''
     @ u ''vip-'' @ str_int (int_bool (u ''VIP'' \<in> required_skills requirement)) @ u ''|''
     @ u ''lang-'' @ Language_value (language analysis) @ u ''|''
     @ u ''type-'' @ TicketType_value (ticket_type analysis) @ u ''|''
     @ u ''chief-'' @ str_int (int_bool (min_position requirement = Some CHIEF_SPECIALIST))"

text \<open>Step 1: the analysis, with the ticket's id, is saved.\<close>

definition analyze_step :: "'w ports \<Rightarrow> (AIAnalysis, Ticket \<times> 'w) io" where
  "analyze_step P =
     io_bind get_ticket (\<lambda>ticket.
     io_bind (port (llm_analyze_ticket P (or_else (t_description ticket) [])
                      (t_attachments ticket))) (\<lambda>analysis0.
     (let analysis = analysis0\<lparr>an_ticket_id := t_id ticket\<rparr>
      in io_bind (port (analytics_save P analysis)) (\<lambda>_. io_return analysis))))"

text \<open>Step 2: geocoding of a ticket without coordinates.\<close>

definition geocode_step :: "pylib \<Rightarrow> 'w ports \<Rightarrow> (unit, Ticket \<times> 'w) io" where
  "geocode_step L P =
     io_bind get_ticket (\<lambda>ticket.
       if \<not> is_address_known ticket
       then
         (let address_str = build_address_string ticket
          in io_bind
               (case address_str of
                  Some (c # cs) \<Rightarrow>
                    (if is_domestic L ticket
                     then io_bind (port (geocode P (c # cs))) (\<lambda>point.
                            case point of
                              Some p \<Rightarrow>
                                modify_ticket (\<lambda>t. t\<lparr>t_client_location := Some p,
                                                       t_geo_status := RESOLVED\<rparr>)
                            | None \<Rightarrow> modify_ticket (\<lambda>t. t\<lparr>t_geo_status := FAILED\<rparr>))
                     else if \<not> is_domestic L ticket \<and> or_else (t_country ticket) [] \<noteq> []
                     then modify_ticket (\<lambda>t. t\<lparr>t_geo_status := ABROAD\<rparr>)
                     else modify_ticket (\<lambda>t. t\<lparr>t_geo_status := FAILED\<rparr>))
                | _ \<Rightarrow>
                    (if \<not> is_domestic L ticket \<and> or_else (t_country ticket) [] \<noteq> []
                     then modify_ticket (\<lambda>t. t\<lparr>t_geo_status := ABROAD\<rparr>)
                     else modify_ticket (\<lambda>t. t\<lparr>t_geo_status := FAILED\<rparr>)))
               (\<lambda>_. io_bind get_ticket (\<lambda>ticket'.
                      io_bind (port (tickets_update P ticket')) (\<lambda>_. io_return ()))))
       else io_return ())"

text \<open>Step 3: the nearest office, or the fallback with its own counter.\<close>

definition select_office_step :: "'w ports \<Rightarrow> (OfficeSelection, Ticket \<times> 'w) io" where
  "select_office_step P =
     io_bind (port (offices_get_all P)) (\<lambda>offices.
     io_bind get_ticket (\<lambda>ticket.
       case t_client_location ticket of
         Some client_location \<Rightarrow> of_result (select_nearest_office client_location offices)
       | None \<Rightarrow>
           io_bind (port (rr_increment_counter P (u ''office-fallback-50-50'')))
             (\<lambda>fallback_counter. of_result (select_fallback_office fallback_counter offices))))"

text \<open>Step 4: the eligible managers, widened twice when there are none.\<close>

definition filter_step ::
  "'w ports \<Rightarrow> SkillRequirement \<Rightarrow> OfficeSelection \<Rightarrow> (Manager list, Ticket \<times> 'w) io" where
  "filter_step P requirement office_sel =
     io_bind (port (managers_get_by_office P (o_id (sel_office office_sel)))) (\<lambda>all_managers.
     (let eligible = filter (\<lambda>m. manager_satisfies (m_skills m) (m_position m) requirement)
                       all_managers
      in io_bind
           (if eligible = []
            then io_bind (port (managers_get_all P)) (\<lambda>all_managers.
                   io_return (filter (\<lambda>m. manager_satisfies (m_skills m) (m_position m)
                                            requirement) all_managers))
            else io_return eligible)
           (\<lambda>eligible.
              if eligible = []
              then io_bind (port (managers_get_all P)) (\<lambda>all_managers.
                     if min_position requirement = Some CHIEF_SPECIALIST
                     then io_return (filter is_chief_specialist all_managers)
                     else io_return all_managers)
              else io_return eligible)))"

text \<open>Steps 5 and 6: the two least loaded, the counter of the queue, the assignment.\<close>

definition assign_step ::
  "'w ports \<Rightarrow> AIAnalysis \<Rightarrow> SkillRequirement \<Rightarrow> OfficeSelection \<Rightarrow> Manager list
     \<Rightarrow> (ProcessingResult, Ticket \<times> 'w) io" where
  "assign_step P analysis requirement office_sel eligible =
     io_bind get_ticket (\<lambda>ticket.
     (let eligible_sorted = sort_key load_id_key eligible;
          top2 = take 2 eligible_sorted;
          rr_key = rr_key_of office_sel requirement analysis
      in io_bind (port (rr_increment_counter P rr_key)) (\<lambda>counter.
         io_bind (of_result (pick_next top2 counter)) (\<lambda>(chosen_manager, _).
         (let assignment =
                \<lparr>a_id = None, a_ticket_id = t_id ticket, a_manager_id = m_id chosen_manager,
                 a_office_id = o_id (sel_office office_sel),
                 a_distance_km = sel_distance_km office_sel,
                 a_assignment_reason = Some (sel_reason office_sel),
                 a_fallback_used = sel_fallback_used office_sel,
                 a_rule_trace = None\<rparr>
          in io_bind (port (assignments_save P assignment)) (\<lambda>_.
             io_bind (port (managers_increment_load P (m_id chosen_manager))) (\<lambda>_.
             io_return
               \<lparr>r_ticket_id = t_id ticket, r_ticket_guid = t_guid ticket,
                r_assigned_manager = Some (m_name chosen_manager),
                r_assigned_office = Some (o_name (sel_office office_sel)),
                r_distance_km = sel_distance_km office_sel,
                r_fallback_used = sel_fallback_used office_sel,
                r_error = None\<rparr>)))))))"

text \<open>The body of the \<open>try\<close> block.\<close>

definition execute_body :: "pylib \<Rightarrow> 'w ports \<Rightarrow> (ProcessingResult, Ticket \<times> 'w) io" where
  "execute_body L P =
     io_bind (analyze_step P) (\<lambda>analysis.
     io_bind get_ticket (\<lambda>ticket.
       if ticket_type analysis = SPAM
       then io_return
              \<lparr>r_ticket_id = t_id ticket, r_ticket_guid = t_guid ticket,
               r_assigned_manager = None, r_assigned_office = None, r_distance_km = None,
               r_fallback_used = False, r_error = None\<rparr>
       else
         io_bind (geocode_step L P) (\<lambda>_.
         io_bind (select_office_step P) (\<lambda>office_sel.
         io_bind get_ticket (\<lambda>ticket.
         (let requirement = determine_required_skills (t_segment ticket)
                              (ticket_type analysis) (language analysis)
          in io_bind (filter_step P requirement office_sel) (\<lambda>eligible.
               if eligible = []
               then io_return
                      \<lparr>r_ticket_id = t_id ticket, r_ticket_guid = t_guid ticket,
                       r_assigned_manager = None, r_assigned_office = None,
                       r_distance_km = None,
                       r_fallback_used = sel_fallback_used office_sel,
                       r_error = Some (u ''No eligible managers found'')\<rparr>
               else assign_step P analysis requirement office_sel eligible)))))))"

text \<open>
  \<open>execute\<close>: the body, and the handler \<open>except Exception as e\<close> around it.  It returns
  the result, the ticket object as the run left it, and the world.
\<close>

definition error_result :: "Ticket \<Rightarrow> exn \<Rightarrow> ProcessingResult" where
  "error_result ticket e =
     \<lparr>r_ticket_id = t_id ticket, r_ticket_guid = t_guid ticket,
      r_assigned_manager = None, r_assigned_office = None, r_distance_km = None,
      r_fallback_used = False, r_error = Some (str_of e)\<rparr>"

definition execute ::
  "pylib \<Rightarrow> 'w ports \<Rightarrow> Ticket \<Rightarrow> 'w \<Rightarrow> ProcessingResult \<times> Ticket \<times> 'w" where
  "execute L P ticket w =
     (case execute_body L P (ticket, w) of
        (Inr result, (ticket', w')) \<Rightarrow> (result, ticket', w')
      | (Inl e, (ticket', w')) \<Rightarrow> (error_result ticket' e, ticket', w'))"

section \<open>SQL repositories (app/adapters/persistence)\<close>

text \<open>
  The tables that the repositories read and write, with the constraints that models.py
  declares on them and that decide what the pipeline's calls do: the primary keys, the
  unique \<open>ticket_id\<close> of \<open>ticket_analytics\<close> and of \<open>assignments\<close>, and their foreign
  keys.  A flush that violates one of them raises IntegrityError and leaves the tables as
  they were.  Rows are kept in insertion order; a new row gets an id above all ids of its
  table.  The texts of the errors stand for the messages of the database driver.
\<close>

record db =
  offices_tbl :: "Office list"
  managers_tbl :: "Manager list"
  tickets_tbl :: "Ticket list"
  analytics_tbl :: "AIAnalysis list"
  assignments_tbl :: "Assignment list"
  rr_tbl :: "pystr \<rightharpoonup> int"

definition next_id :: "int option list \<Rightarrow> int" where
  "next_id ids = fold (\<lambda>i m. case i of Some j \<Rightarrow> max j m | None \<Rightarrow> m) ids 0 + 1"

definition unique_violation :: "pystr \<Rightarrow> exn" where
  "unique_violation column = IntegrityError (u ''duplicate key value violates unique constraint on '' @ column)"

definition fk_violation :: "pystr \<Rightarrow> exn" where
  "fk_violation column = IntegrityError (u ''insert violates foreign key constraint on '' @ column)"

definition SqlAnalyticsRepository_save :: "AIAnalysis \<Rightarrow> (AIAnalysis, db) io" where
  "SqlAnalyticsRepository_save analysis = (\<lambda>d.
     if an_ticket_id analysis \<in> set (map an_ticket_id (analytics_tbl d))
     then (Inl (unique_violation (u ''ticket_analytics.ticket_id'')), d)
     else if an_ticket_id analysis \<notin> set (map t_id (tickets_tbl d))
     then (Inl (fk_violation (u ''ticket_analytics.ticket_id'')), d)
     else
       (let m = analysis\<lparr>an_id := Some (next_id (map an_id (analytics_tbl d)))\<rparr>
        in (Inr m, d\<lparr>analytics_tbl := analytics_tbl d @ [m]\<rparr>)))"

definition SqlAssignmentRepository_save :: "Assignment \<Rightarrow> (Assignment, db) io" where
  "SqlAssignmentRepository_save assignment = (\<lambda>d.
     if a_ticket_id assignment \<in> set (map a_ticket_id (assignments_tbl d))
     then (Inl (unique_violation (u ''assignments.ticket_id'')), d)
     else if a_ticket_id assignment \<notin> set (map t_id (tickets_tbl d))
     then (Inl (fk_violation (u ''assignments.ticket_id'')), d)
     else if a_manager_id assignment \<notin> set (map m_id (managers_tbl d))
     then (Inl (fk_violation (u ''assignments.manager_id'')), d)
     else if a_office_id assignment \<notin> set (map o_id (offices_tbl d))
     then (Inl (fk_violation (u ''assignments.office_id'')), d)
     else
       (let m = assignment\<lparr>a_id := Some (next_id (map a_id (assignments_tbl d)))\<rparr>
        in (Inr m, d\<lparr>assignments_tbl := assignments_tbl d @ [m]\<rparr>)))"

definition SqlTicketRepository_update :: "Ticket \<Rightarrow> (Ticket, db) io" where
  "SqlTicketRepository_update ticket = (\<lambda>d.
     (Inr ticket,
      d\<lparr>tickets_tbl :=
          map (\<lambda>row. if t_id row = t_id ticket
                      then row\<lparr>t_client_location := t_client_location ticket,
                               t_geo_status := t_geo_status ticket\<rparr>
                      else row) (tickets_tbl d)\<rparr>))"

definition SqlOfficeRepository_get_all :: "(Office list, db) io" where
  "SqlOfficeRepository_get_all = (\<lambda>d. (Inr (sort_key o_id (offices_tbl d)), d))"

definition SqlManagerRepository_get_by_office :: "int \<Rightarrow> (Manager list, db) io" where
  "SqlManagerRepository_get_by_office office_id = (\<lambda>d.
     (Inr (filter (\<lambda>m. m_office_id m = office_id) (managers_tbl d)), d))"

definition SqlManagerRepository_get_all :: "(Manager list, db) io" where
  "SqlManagerRepository_get_all = (\<lambda>d. (Inr (sort_key m_id (managers_tbl d)), d))"

definition SqlManagerRepository_increment_load :: "int \<Rightarrow> (unit, db) io" where
  "SqlManagerRepository_increment_load manager_id = (\<lambda>d.
     (Inr (),
      d\<lparr>managers_tbl :=
          map (\<lambda>m. if m_id m = manager_id
                    then m\<lparr>m_current_load := m_current_load m + 1\<rparr> else m)
            (managers_tbl d)\<rparr>))"

definition SqlRoundRobinRepository_increment_counter :: "pystr \<Rightarrow> (int, db) io" where
  "SqlRoundRobinRepository_increment_counter rr_key = (\<lambda>d.
     case rr_tbl d rr_key of
       None \<Rightarrow> (Inr 0, d\<lparr>rr_tbl := (rr_tbl d)(rr_key \<mapsto> 1)\<rparr>)
     | Some old_value \<Rightarrow> (Inr old_value, d\<lparr>rr_tbl := (rr_tbl d)(rr_key \<mapsto> old_value + 1)\<rparr>))"

text \<open>
  The ports of a deployment: the SQL repositories over the database, and a classifier
  and a geocoder that are services outside it, with a state \<open>'x\<close> of their own.
\<close>

definition on_db :: "('a, db) io \<Rightarrow> ('a, db \<times> 'x) io" where
  "on_db p = (\<lambda>(d, x). case p d of (r, d') \<Rightarrow> (r, (d', x)))"

definition on_ext :: "('a, 'x) io \<Rightarrow> ('a, db \<times> 'x) io" where
  "on_ext p = (\<lambda>(d, x). case p x of (r, x') \<Rightarrow> (r, (d, x')))"

definition sql_ports ::
  "(pystr \<Rightarrow> pystr option \<Rightarrow> (AIAnalysis, 'x) io) \<Rightarrow> (pystr \<Rightarrow> (GeoPoint option, 'x) io)
     \<Rightarrow> (db \<times> 'x) ports" where
  "sql_ports llm geocoder =
     \<lparr>llm_analyze_ticket = (\<lambda>description attachments. on_ext (llm description attachments)),
      analytics_save = (\<lambda>analysis. on_db (SqlAnalyticsRepository_save analysis)),
      geocode = (\<lambda>address. on_ext (geocoder address)),
      tickets_update = (\<lambda>ticket. on_db (SqlTicketRepository_update ticket)),
      offices_get_all = on_db SqlOfficeRepository_get_all,
      rr_increment_counter = (\<lambda>rr_key. on_db (SqlRoundRobinRepository_increment_counter rr_key)),
      managers_get_by_office = (\<lambda>office_id. on_db (SqlManagerRepository_get_by_office office_id)),
      managers_get_all = on_db SqlManagerRepository_get_all,
      assignments_save = (\<lambda>assignment. on_db (SqlAssignmentRepository_save assignment)),
      managers_increment_load = (\<lambda>manager_id. on_db (SqlManagerRepository_increment_load manager_id))\<rparr>"

section \<open>Concrete inputs for the pipeline\<close>

text \<open>
  A ticket with known coordinates, at the place of office A, and a ticket without
  address; a database with that office, two managers without skills and the two
  tickets; the same database after the first ticket has been analysed, and after it has
  been assigned; a classifier that answers Consultation (the FakeLLM of
  the tests), one that answers Spam, one that raises; a geocoder that finds nothing and
  records the addresses it was asked for in the state of the outside services.
\<close>

definition ticket_1 :: Ticket where
  "ticket_1 = \<lparr>t_id = 1, t_guid = u ''t-1'', t_gender = None, t_birth_date = None,
      t_description = Some (u ''hello''), t_attachments = None, t_segment = MASS,
      t_country = None, t_region = None, t_city = None, t_street = None, t_building = None,
      t_client_location = Some \<lparr>latitude = 43, longitude = 77\<rparr>,
      t_geo_status = RESOLVED\<rparr>"

definition ticket_2 :: Ticket where
  "ticket_2 = \<lparr>t_id = 2, t_guid = u ''t-2'', t_gender = None, t_birth_date = None,
      t_description = Some (u ''price list''), t_attachments = None, t_segment = MASS,
      t_country = None, t_region = None, t_city = None, t_street = None, t_building = None,
      t_client_location = None, t_geo_status = PENDING\<rparr>"

definition consultation :: AIAnalysis where
  "consultation = \<lparr>an_id = None, an_ticket_id = 0, ticket_type = CONSULTATION,
      sentiment = NEUTRAL, priority_score = 5, language = RU, summary = JStr (u ''test''),
      llm_model = None\<rparr>"

definition llm_consultation :: "pystr \<Rightarrow> pystr option \<Rightarrow> (AIAnalysis, pystr list) io" where
  "llm_consultation description attachments = io_return consultation"



definition geocoder_none :: "pystr \<Rightarrow> (GeoPoint option, pystr list) io" where
  "geocoder_none address = (\<lambda>asked. (Inr None, asked @ [address]))"

definition db_0 :: db where
  "db_0 = \<lparr>offices_tbl = [office_A], managers_tbl = [mgr 1 0, mgr 2 0],
            tickets_tbl = [ticket_1, ticket_2], analytics_tbl = [], assignments_tbl = [],
            rr_tbl = Map.empty\<rparr>"

definition db_analysed :: db where
  "db_analysed = db_0\<lparr>analytics_tbl := [consultation\<lparr>an_id := Some 1, an_ticket_id := 1\<rparr>]\<rparr>"

definition sel_A :: OfficeSelection where
  "sel_A = \<lparr>sel_office = office_A, sel_distance_km = Some 0, sel_fallback_used = False,
             sel_reason = NearestOffice (u ''A'') 0\<rparr>"

definition db_assigned :: db where
  "db_assigned = \<lparr>offices_tbl = [office_A], managers_tbl = [mgr 1 1, mgr 2 0],
      tickets_tbl = [ticket_1, ticket_2],
      analytics_tbl = [consultation\<lparr>an_id := Some 1, an_ticket_id := 1\<rparr>],
      assignments_tbl =
        [\<lparr>a_id = Some 1, a_ticket_id = 1, a_manager_id = 1, a_office_id = 1,
          a_distance_km = Some 0, a_assignment_reason = Some (NearestOffice (u ''A'') 0),
          a_fallback_used = False, a_rule_trace = None\<rparr>],
      rr_tbl = [rr_key_of
                  \<lparr>sel_office = office_A, sel_distance_km = Some 0, sel_fallback_used = False,
                    sel_reason = NearestOffice (u ''A'') 0\<rparr>
                  (determine_required_skills MASS CONSULTATION RU) consultation \<mapsto> 1]\<rparr>"

section \<open>Notions used in the proofs\<close>

text \<open>
  \<open>keeps Q m\<close>: the computation \<open>m\<close> keeps the property \<open>Q\<close> of the state, whether it
  returns or raises.  \<open>ensures_from Pre Q m\<close>: started in a state with \<open>Pre\<close>, \<open>m\<close> ends in
  a state with \<open>Q\<close> whenever it returns.  \<open>of_db Qd\<close>: a property of the database, as a
  property of the state of a run over the SQL ports.  \<open>same_identity\<close>: two ticket objects
  with the same id and guid.
\<close>

definition keeps :: "('s \<Rightarrow> bool) \<Rightarrow> ('a, 's) io \<Rightarrow> bool" where
  "keeps Q m = (\<forall>s. Q s \<longrightarrow> Q (snd (m s)))"

definition ensures_from :: "('s \<Rightarrow> bool) \<Rightarrow> ('s \<Rightarrow> bool) \<Rightarrow> ('a, 's) io \<Rightarrow> bool" where
  "ensures_from Pre Q m = (\<forall>s r s'. Pre s \<longrightarrow> m s = (Inr r, s') \<longrightarrow> Q s')"

definition of_db :: "(db \<Rightarrow> bool) \<Rightarrow> Ticket \<times> db \<times> 'x \<Rightarrow> bool" where
  "of_db Qd = (\<lambda>(t, (d, x)). Qd d)"

definition same_identity :: "Ticket \<Rightarrow> Ticket \<Rightarrow> bool" where
  "same_identity t0 t = (t_id t = t_id t0 \<and> t_guid t = t_guid t0)"

section \<open>Properties of the skill policy\<close>

lemma u_VIP_KZ_ENG_distinct:
  "u ''VIP'' \<noteq> u ''KZ''" "u ''VIP'' \<noteq> u ''ENG''" "u ''KZ'' \<noteq> u ''ENG''"
  "u ''KZ'' \<noteq> u ''VIP''" "u ''ENG'' \<noteq> u ''VIP''" "u ''ENG'' \<noteq> u ''KZ''"
  by (simp_all add: u_def)

text \<open>
  Claim C7.  The rules of \<open>determine_required_skills\<close> are additive: the required
  skill set contains "VIP" exactly for the VIP and Priority segments, "KZ" exactly for
  language KZ, "ENG" exactly for language ENG, and nothing else; the minimum position is
  Chief Specialist exactly for DataChange tickets and absent otherwise.  A manager
  satisfies a requirement exactly when the required skills are a subset of the
  manager's skills and, when the requirement names Chief Specialist, the manager is one.
\<close>

theorem required_skills_additive:
  "(u ''VIP'' \<in> required_skills (determine_required_skills seg ty lang))
      = (seg = VIP \<or> seg = PRIORITY)
   \<and> (u ''KZ'' \<in> required_skills (determine_required_skills seg ty lang)) = (lang = KZ)
   \<and> (u ''ENG'' \<in> required_skills (determine_required_skills seg ty lang)) = (lang = ENG)
   \<and> required_skills (determine_required_skills seg ty lang)
        \<subseteq> {u ''VIP'', u ''KZ'', u ''ENG''}
   \<and> (min_position (determine_required_skills seg ty lang) = Some CHIEF_SPECIALIST)
        = (ty = DATA_CHANGE)
   \<and> (min_position (determine_required_skills seg ty lang) = None) = (ty \<noteq> DATA_CHANGE)
   \<and> manager_satisfies skills rank req
        = (required_skills req \<subseteq> skills
           \<and> (min_position req = None \<or> min_position req \<noteq> Some CHIEF_SPECIALIST
                \<or> rank = CHIEF_SPECIALIST))"
  by (auto simp: determine_required_skills_def manager_satisfies_def Let_def
        u_VIP_KZ_ENG_distinct)

theorem required_skills_additive_witness:
  "{u ''VIP'', u ''KZ''} \<subseteq> required_skills (determine_required_skills VIP CONSULTATION KZ)
   \<and> \<not> manager_satisfies {u ''VIP''} SPECIALIST (determine_required_skills VIP CONSULTATION KZ)
   \<and> manager_satisfies {u ''VIP'', u ''KZ''} SPECIALIST
        (determine_required_skills VIP CONSULTATION KZ)"
  using required_skills_additive [of VIP CONSULTATION KZ "{u ''VIP''}" SPECIALIST
          "determine_required_skills VIP CONSULTATION KZ"]
        required_skills_additive [of VIP CONSULTATION KZ "{u ''VIP'', u ''KZ''}" SPECIALIST
          "determine_required_skills VIP CONSULTATION KZ"]
  by (auto simp: determine_required_skills_def Let_def u_VIP_KZ_ENG_distinct)

section \<open>Nearest office\<close>

lemma min_key_from_split:
  "\<exists>pre post. b # xs = pre @ min_key_from f b xs # post
      \<and> (\<forall>y\<in>set pre. f (min_key_from f b xs) < f y)
      \<and> (\<forall>y\<in>set post. f (min_key_from f b xs) \<le> f y)"
proof (induction xs arbitrary: b)
  case Nil
  show ?case by (rule exI [of _ "[]"]) simp
next
  case (Cons x xs)
  show ?case
  proof (cases "f x < f b")
    case True
    define r where "r = min_key_from f x xs"
    have step: "min_key_from f b (x # xs) = r" using True by (simp add: r_def)
    from Cons.IH [of x] obtain pre post where
      s: "x # xs = pre @ r # post"
      and p: "\<forall>y\<in>set pre. f r < f y"
      and q: "\<forall>y\<in>set post. f r \<le> f y" unfolding r_def by blast
    have "f r \<le> f x"
    proof (cases pre)
      case Nil
      with s have "x # xs = r # post" by (simp only: append_Nil)
      then have "r = x" by (metis list.inject)
      then show ?thesis by (simp only: order_refl)
    next
      case (Cons a as)
      with s have "a = x" by simp
      with p Cons show ?thesis by auto
    qed
    with True have lt: "f r < f b" by simp
    have e: "b # x # xs = (b # pre) @ r # post" using s by simp
    have "b # x # xs = (b # pre) @ r # post
          \<and> (\<forall>y\<in>set (b # pre). f r < f y) \<and> (\<forall>y\<in>set post. f r \<le> f y)"
      using e p q lt by simp
    then show ?thesis unfolding step by blast
  next
    case False
    define r where "r = min_key_from f b xs"
    have step: "min_key_from f b (x # xs) = r" using False by (simp add: r_def)
    from Cons.IH [of b] obtain pre post where
      s: "b # xs = pre @ r # post"
      and p: "\<forall>y\<in>set pre. f r < f y"
      and q: "\<forall>y\<in>set post. f r \<le> f y" unfolding r_def by blast
    show ?thesis
    proof (cases pre)
      case Nil
      with s have "b # xs = r # post" by (simp only: append_Nil)
      then have rb: "r = b" and xs: "xs = post" by (metis list.inject)+
      have "b # x # xs = [] @ r # (x # post)
          \<and> (\<forall>y\<in>set []. f r < f y) \<and> (\<forall>y\<in>set (x # post). f r \<le> f y)"
        using False rb xs q by auto
      then show ?thesis unfolding step by blast
    next
      case (Cons a as)
      with s have a: "a = b" and xs: "xs = as @ r # post" by simp_all
      from p Cons a have lt: "f r < f b" by simp
      have "b # x # xs = (b # x # as) @ r # post
          \<and> (\<forall>y\<in>set (b # x # as). f r < f y) \<and> (\<forall>y\<in>set post. f r \<le> f y)"
        using False lt p q Cons a xs by auto
      then show ?thesis unfolding step by blast
    qed
  qed
qed

lemma candidates_mem:
  "o' \<in> set os \<Longrightarrow> o_location o' = Some l \<Longrightarrow> (o', haversine_km c l) \<in> set (candidates c os)"
  by (induction os) (auto split: option.splits)

lemma candidates_split:
  "candidates c os = pre @ (o', d) # post \<Longrightarrow>
   \<exists>pre_o post_o loc. os = pre_o @ o' # post_o \<and> o_location o' = Some loc
      \<and> d = haversine_km c loc \<and> candidates c pre_o = pre \<and> candidates c post_o = post"
proof (induction os arbitrary: pre)
  case Nil
  then show ?case by simp
next
  case (Cons a os)
  show ?case
  proof (cases "o_location a")
    case None
    with Cons.prems have "candidates c os = pre @ (o', d) # post" by simp
    from Cons.IH [OF this] obtain pre_o post_o loc where
      "os = pre_o @ o' # post_o" "o_location o' = Some loc" "d = haversine_km c loc"
      "candidates c pre_o = pre" "candidates c post_o = post" by blast
    with None show ?thesis
      by (intro exI [of _ "a # pre_o"] exI [of _ post_o] exI [of _ loc] conjI) simp_all
  next
    case (Some l)
    with Cons.prems have e: "(a, haversine_km c l) # candidates c os = pre @ (o', d) # post" by simp
    show ?thesis
    proof (cases pre)
      case Nil
      with e have "a = o'" "d = haversine_km c l" "candidates c os = post" by simp_all
      with Some Nil show ?thesis
        by (intro exI [of _ "[]"] exI [of _ os] exI [of _ l] conjI) simp_all
    next
      case (Cons p ps)
      with e have p: "p = (a, haversine_km c l)" and "candidates c os = ps @ (o', d) # post" by simp_all
      from Cons.IH [OF this(2)] obtain pre_o post_o loc where
        "os = pre_o @ o' # post_o" "o_location o' = Some loc" "d = haversine_km c loc"
        "candidates c pre_o = ps" "candidates c post_o = post" by blast
      with Some Cons p show ?thesis
        by (intro exI [of _ "a # pre_o"] exI [of _ post_o] exI [of _ loc] conjI) simp_all
    qed
  qed
qed

lemma candidates_Nil_iff: "candidates c os = [] \<longleftrightarrow> (\<forall>o'\<in>set os. o_location o' = None)"
  by (induction os) (auto split: option.splits)

lemma nearest_struct:
  assumes "\<not> (\<forall>o'\<in>set offices. o_location o' = None)"
  shows "\<exists>pre post loc best. offices = pre @ best # post \<and> o_location best = Some loc
      \<and> select_nearest_office c offices =
           Inr \<lparr>sel_office = best, sel_distance_km = Some (py_round2 (haversine_km c loc)),
                sel_fallback_used = False,
                sel_reason = NearestOffice (o_name best) (haversine_km c loc)\<rparr>
      \<and> (\<forall>o'\<in>set pre. \<forall>l. o_location o' = Some l \<longrightarrow> haversine_km c loc < haversine_km c l)
      \<and> (\<forall>o'\<in>set post. \<forall>l. o_location o' = Some l \<longrightarrow> haversine_km c loc \<le> haversine_km c l)"
proof -
  from assms have "candidates c offices \<noteq> []" by (simp add: candidates_Nil_iff)
  then obtain x xs where cx: "candidates c offices = x # xs" by (cases "candidates c offices") auto
  obtain best d where bd: "min_key_from snd x xs = (best, d)" by (cases "min_key_from snd x xs")
  from min_key_from_split [of x xs snd] bd obtain pre post where
    s: "x # xs = pre @ (best, d) # post"
    and p: "\<forall>y\<in>set pre. d < snd y" and q: "\<forall>y\<in>set post. d \<le> snd y" by auto
  from candidates_split [of c offices pre best d post] cx s obtain pre_o post_o loc where
    o: "offices = pre_o @ best # post_o" "o_location best = Some loc" "d = haversine_km c loc"
       "candidates c pre_o = pre" "candidates c post_o = post" by auto
  have sel: "select_nearest_office c offices =
           Inr \<lparr>sel_office = best, sel_distance_km = Some (py_round2 (haversine_km c loc)),
                sel_fallback_used = False,
                sel_reason = NearestOffice (o_name best) (haversine_km c loc)\<rparr>"
    using cx bd o(3) by (simp add: select_nearest_office_def)
  have P: "\<forall>o'\<in>set pre_o. \<forall>l. o_location o' = Some l \<longrightarrow> haversine_km c loc < haversine_km c l"
    using p o(3,4) candidates_mem [of _ pre_o _ c] by fastforce
  have Q: "\<forall>o'\<in>set post_o. \<forall>l. o_location o' = Some l \<longrightarrow> haversine_km c loc \<le> haversine_km c l"
    using q o(3,5) candidates_mem [of _ post_o _ c] by fastforce
  from o(1,2) sel P Q show ?thesis by blast
qed

lemma haversine_self: "haversine_km p p = 0"
  by (simp add: haversine_km_def radians_def atan2_def)

lemma round2_zero: "py_round2 0 = 0"
  by (simp add: py_round2_def round_half_even_def)

text \<open>
  Claim C3, as the code has it.  When no office has a location, \<open>select_nearest_office\<close>
  raises the no-candidates error.  Otherwise it returns an office with a location whose
  haversine distance to the client is minimal among the located offices, with that distance
  rounded to two decimals and no fallback; among the offices at the minimal distance it
  returns the one that comes first in the list it was given (every located office before
  it is strictly farther).  So when the list is in ascending order of id, as
  \<open>SqlOfficeRepository.get_all\<close> returns it, the office returned has the smallest id of
  those at the minimal distance.
\<close>

theorem select_nearest_office_first_minimal:
  "(if \<forall>o'\<in>set offices. o_location o' = None
    then select_nearest_office c offices
           = Inl (ValueError (u ''No offices with known locations available''))
    else \<exists>pre best post loc.
           offices = pre @ best # post \<and> o_location best = Some loc
         \<and> select_nearest_office c offices =
             Inr \<lparr>sel_office = best, sel_distance_km = Some (py_round2 (haversine_km c loc)),
                  sel_fallback_used = False,
                  sel_reason = NearestOffice (o_name best) (haversine_km c loc)\<rparr>
         \<and> (\<forall>o'\<in>set pre. \<forall>l. o_location o' = Some l
                \<longrightarrow> haversine_km c loc < haversine_km c l)
         \<and> (\<forall>o'\<in>set post. \<forall>l. o_location o' = Some l
                \<longrightarrow> haversine_km c loc \<le> haversine_km c l)
         \<and> (sorted (map o_id offices) \<longrightarrow>
              (\<forall>o'\<in>set offices. \<forall>l. o_location o' = Some l
                 \<longrightarrow> haversine_km c l = haversine_km c loc \<longrightarrow> o_id best \<le> o_id o')))"
proof (cases "\<forall>o'\<in>set offices. o_location o' = None")
  case True
  then have "candidates c offices = []" by (simp add: candidates_Nil_iff)
  with True show ?thesis by (simp add: select_nearest_office_def)
next
  case False
  from nearest_struct [OF False, of c] obtain pre post loc best where
    o: "offices = pre @ best # post" and l: "o_location best = Some loc"
    and s: "select_nearest_office c offices =
           Inr \<lparr>sel_office = best, sel_distance_km = Some (py_round2 (haversine_km c loc)),
                sel_fallback_used = False,
                sel_reason = NearestOffice (o_name best) (haversine_km c loc)\<rparr>"
    and p: "\<forall>o'\<in>set pre. \<forall>l. o_location o' = Some l \<longrightarrow> haversine_km c loc < haversine_km c l"
    and q: "\<forall>o'\<in>set post. \<forall>l. o_location o' = Some l \<longrightarrow> haversine_km c loc \<le> haversine_km c l"
    by blast
  have ids: "sorted (map o_id offices) \<longrightarrow>
              (\<forall>o'\<in>set offices. \<forall>l. o_location o' = Some l
                 \<longrightarrow> haversine_km c l = haversine_km c loc \<longrightarrow> o_id best \<le> o_id o')"
  proof (intro impI ballI allI)
    fix o' l
    assume srt: "sorted (map o_id offices)" and mem: "o' \<in> set offices"
      and lo: "o_location o' = Some l" and eq: "haversine_km c l = haversine_km c loc"
    from mem o have "o' \<in> set pre \<or> o' = best \<or> o' \<in> set post" by auto
    then show "o_id best \<le> o_id o'"
    proof (elim disjE)
      assume "o' \<in> set pre"
      with p lo eq show ?thesis by force
    next
      assume "o' = best" then show ?thesis by simp
    next
      assume "o' \<in> set post"
      with srt o show ?thesis by (auto simp: sorted_append)
    qed
  qed
  from False o l s p q ids show ?thesis by (simp only: if_False) blast
qed

theorem select_nearest_office_first_minimal_witness:
  "\<exists>sel. select_nearest_office \<lparr>latitude = 43, longitude = 77\<rparr> [office_A, office_B] = Inr sel
      \<and> o_id (sel_office sel) = 1 \<and> sel_distance_km sel = Some 0"
proof -
  let ?c = "\<lparr>latitude = 43, longitude = 77\<rparr>"
  have ne: "\<not> (\<forall>o'\<in>set [office_A, office_B]. o_location o' = None)"
    by (simp add: office_A_def)
  have srt: "sorted (map o_id [office_A, office_B])"
    by (simp add: office_A_def office_B_def)
  note m = select_nearest_office_first_minimal [of "[office_A, office_B]" ?c, unfolded if_not_P [OF ne]]
  from m obtain pre best post loc where
    sp: "[office_A, office_B] = pre @ best # post" and l: "o_location best = Some loc"
    and s: "select_nearest_office ?c [office_A, office_B] =
             Inr \<lparr>sel_office = best, sel_distance_km = Some (py_round2 (haversine_km ?c loc)),
                  sel_fallback_used = False,
                  sel_reason = NearestOffice (o_name best) (haversine_km ?c loc)\<rparr>"
    and ids: "sorted (map o_id [office_A, office_B]) \<longrightarrow>
              (\<forall>o'\<in>set [office_A, office_B]. \<forall>l. o_location o' = Some l
                 \<longrightarrow> haversine_km ?c l = haversine_km ?c loc \<longrightarrow> o_id best \<le> o_id o')"
    by (elim exE conjE)
  from sp have "best \<in> set [office_A, office_B]" by (metis in_set_conv_decomp)
  then have b: "best = office_A \<or> best = office_B" by simp
  with l have loc: "loc = ?c" by (auto simp: office_A_def office_B_def)
  have la: "o_location office_A = Some ?c" by (simp add: office_A_def)
  from ids srt have "\<forall>o'\<in>set [office_A, office_B]. \<forall>l. o_location o' = Some l
                 \<longrightarrow> haversine_km ?c l = haversine_km ?c loc \<longrightarrow> o_id best \<le> o_id o'"
    by (rule mp)
  then have "o_location office_A = Some ?c
                 \<longrightarrow> haversine_km ?c ?c = haversine_km ?c loc \<longrightarrow> o_id best \<le> o_id office_A"
    by (simp only: list.set ball_simps insert_iff) blast
  with la loc have "o_id best \<le> o_id office_A" by simp
  with b have "o_id best = 1" by (auto simp: office_A_def office_B_def)
  with s loc show ?thesis by (simp add: haversine_self round2_zero)
qed

text \<open>
  The tie-break is by position, not by id: with the office of id 2 listed before the
  office of id 1, both at the client's own coordinates, the office of id 2 is returned.
\<close>

theorem select_nearest_office_tie_counterexample:
  "select_nearest_office \<lparr>latitude = 43, longitude = 77\<rparr> [office_B, office_A]
     = Inr \<lparr>sel_office = office_B, sel_distance_km = Some 0, sel_fallback_used = False,
             sel_reason = NearestOffice (u ''B'') 0\<rparr>
   \<and> o_location office_A = Some \<lparr>latitude = 43, longitude = 77\<rparr>
   \<and> haversine_km \<lparr>latitude = 43, longitude = 77\<rparr> \<lparr>latitude = 43, longitude = 77\<rparr> = 0
   \<and> o_id office_A < o_id office_B"
  by (simp add: select_nearest_office_def haversine_self round2_zero office_A_def office_B_def)

section \<open>Round robin\<close>

lemma pick_next_nonempty:
  "cands \<noteq> [] \<Longrightarrow> pick_next cands counter
     = Inr (sort_key load_id_key cands ! nat (counter mod int (length cands)), counter + 1)"
  by (simp add: pick_next_def Let_def)

lemma successive_picks_gen:
  "cands \<noteq> [] \<Longrightarrow> successive_picks cands counter n
     = Inr (map (\<lambda>i. sort_key load_id_key cands ! nat ((counter + int i) mod int (length cands))) [0..<n])"
proof (induction n arbitrary: counter)
  case 0
  show ?case by simp
next
  case (Suc n)
  have "map (\<lambda>i. sort_key load_id_key cands ! nat ((counter + int i) mod int (length cands))) [0..<Suc n]
      = sort_key load_id_key cands ! nat (counter mod int (length cands))
        # map (\<lambda>i. sort_key load_id_key cands ! nat ((counter + 1 + int i) mod int (length cands))) [0..<n]"
  proof -
    have "[0..<Suc n] = 0 # map Suc [0..<n]" by (simp only: upt_conv_Cons zero_less_Suc map_Suc_upt)
    then show ?thesis by (simp add: o_def add.assoc del: upt_Suc)
  qed
  then show ?case using Suc by (simp add: pick_next_nonempty del: upt_Suc)
qed

lemma cycle_twice:
  assumes "length s = N"
  shows "map (\<lambda>i. s ! nat ((0 + int i) mod int N)) [0..<2 * N] = s @ s"
proof (rule nth_equalityI)
  show "length (map (\<lambda>i. s ! nat ((0 + int i) mod int N)) [0..<2 * N]) = length (s @ s)"
    using assms by simp
next
  fix i assume "i < length (map (\<lambda>i. s ! nat ((0 + int i) mod int N)) [0..<2 * N])"
  then have i: "i < 2 * N" by simp
  then have N: "0 < N" by simp
  have m: "nat (int i mod int N) = i mod N"
    by (simp add: nat_mod_distrib flip: zmod_int)
  show "map (\<lambda>i. s ! nat ((0 + int i) mod int N)) [0..<2 * N] ! i = (s @ s) ! i"
  proof (cases "i < N")
    case True
    with i assms m show ?thesis by (simp add: nth_append)
  next
    case False
    then have "N \<le> i" by simp
    then have "i mod N = (i - N) mod N" by (rule le_mod_geq)
    also have "\<dots> = i - N" using i by simp
    finally have "i mod N = i - N" .
    with False i assms m show ?thesis by (simp add: nth_append)
  qed
qed

lemma picks_2N:
  assumes "cands \<noteq> []"
  shows "successive_picks cands 0 (2 * length cands)
       = Inr (sort_key load_id_key cands @ sort_key load_id_key cands)"
  using successive_picks_gen [OF assms, of 0 "2 * length cands"]
        cycle_twice [of "sort_key load_id_key cands" "length cands"]
  by simp

lemma key_order:
  "(load_id_key m \<le> load_id_key m') =
     (m_current_load m < m_current_load m'
      \<or> (m_current_load m = m_current_load m' \<and> m_id m \<le> m_id m'))"
  by (auto simp: load_id_key_def)

text \<open>
  Claim C5.  On an empty candidate list \<open>pick_next\<close> raises.  On a non-empty list it
  returns the manager at index \<open>counter mod length\<close> of the candidates sorted by
  (current load ascending, id ascending), together with \<open>counter + 1\<close>; the sorted list
  is a permutation of the candidates in that lexicographic order.  For a fixed list of N
  candidates, 2N successive picks from counter 0 (each pick handing its counter to the
  next) give the sorted list twice over, so every candidate is picked exactly twice.  This
  holds for every integer counter, in particular for every counter that is not negative.
\<close>

theorem pick_next_round_robin:
  "(if cands = []
    then pick_next cands counter = Inl (ValueError (u ''Cannot pick from an empty candidate list''))
    else pick_next cands counter
           = Inr (sort_key load_id_key cands ! nat (counter mod int (length cands)), counter + 1)
       \<and> successive_picks cands 0 (2 * length cands)
           = Inr (sort_key load_id_key cands @ sort_key load_id_key cands))
   \<and> sorted (map load_id_key (sort_key load_id_key cands))
   \<and> mset (sort_key load_id_key cands) = mset cands
   \<and> mset (sort_key load_id_key cands @ sort_key load_id_key cands) = mset cands + mset cands
   \<and> (\<forall>m m'. (load_id_key m \<le> load_id_key m') =
        (m_current_load m < m_current_load m'
         \<or> (m_current_load m = m_current_load m' \<and> m_id m \<le> m_id m')))"
proof (cases "cands = []")
  case True
  then show ?thesis by (simp add: pick_next_def key_order)
next
  case False
  with pick_next_nonempty [OF False, of counter] picks_2N [OF False] show ?thesis
    by (simp add: key_order)
qed

theorem pick_next_round_robin_witness:
  "pick_next [mgr 3 0, mgr 1 5, mgr 2 0] 0 = Inr (mgr 2 0, 1)
   \<and> successive_picks [mgr 3 0, mgr 1 5, mgr 2 0] 0 6
       = Inr [mgr 2 0, mgr 3 0, mgr 1 5, mgr 2 0, mgr 3 0, mgr 1 5]"
proof -
  have s: "sort_key load_id_key [mgr 3 0, mgr 1 5, mgr 2 0] = [mgr 2 0, mgr 3 0, mgr 1 5]"
    by (simp add: load_id_key_def mgr_def)
  from pick_next_round_robin [of "[mgr 3 0, mgr 1 5, mgr 2 0]" 0, THEN conjunct1] show ?thesis
    by (simp add: s del: sort_key_simps)
qed

section \<open>Fallback office\<close>

lemma hub_names_distinct: "ASTANA_HUB \<noteq> ALMATY_HUB"
  by (simp add: ASTANA_HUB_def ALMATY_HUB_def)

lemma hub_step_astana:
  "hub_step m a ASTANA_HUB = (if py_in ASTANA_HUB (o_name a) then Some a else m ASTANA_HUB)"
  using hub_names_distinct by (simp add: hub_step_def Let_def)

lemma hub_step_almaty:
  "hub_step m a ALMATY_HUB = (if py_in ALMATY_HUB (o_name a) then Some a else m ALMATY_HUB)"
  using hub_names_distinct by (simp add: hub_step_def Let_def)

lemma foldl_hub_step_astana:
  "foldl hub_step m offices ASTANA_HUB =
     (case filter (\<lambda>o'. py_in ASTANA_HUB (o_name o')) offices of
        [] \<Rightarrow> m ASTANA_HUB | x # xs \<Rightarrow> Some (last (x # xs)))"
proof (induction offices arbitrary: m)
  case Nil
  show ?case by simp
next
  case (Cons a offices)
  show ?case
    by (simp add: Cons.IH hub_step_astana split: list.splits)
qed

lemma foldl_hub_step_almaty:
  "foldl hub_step m offices ALMATY_HUB =
     (case filter (\<lambda>o'. py_in ALMATY_HUB (o_name o')) offices of
        [] \<Rightarrow> m ALMATY_HUB | x # xs \<Rightarrow> Some (last (x # xs)))"
proof (induction offices arbitrary: m)
  case Nil
  show ?case by simp
next
  case (Cons a offices)
  show ?case
    by (simp add: Cons.IH hub_step_almaty split: list.splits)
qed

text \<open>
  Claim C6.  On an empty office list \<open>select_fallback_office\<close> raises the no-offices
  error.  When some office name contains the Astana identifier and some office name
  contains the Almaty identifier, it picks the Astana hub (the last office of the list whose
  name contains the identifier) for an even counter and the Almaty hub for an odd one.
  Otherwise it picks the office at index \<open>counter mod length\<close> of the offices sorted by
  id ascending.  In every case the distance is absent and the fallback flag is set.
\<close>

theorem select_fallback_office_spec:
  "select_fallback_office counter offices =
     (if offices = [] then Inl (ValueError (u ''No offices available for fallback''))
      else if (\<exists>o'\<in>set offices. py_in ASTANA_HUB (o_name o'))
              \<and> (\<exists>o'\<in>set offices. py_in ALMATY_HUB (o_name o'))
      then (if even counter
            then Inr \<lparr>sel_office = last (filter (\<lambda>o'. py_in ASTANA_HUB (o_name o')) offices),
                      sel_distance_km = None, sel_fallback_used = True,
                      sel_reason = Fallback5050 ASTANA_HUB\<rparr>
            else Inr \<lparr>sel_office = last (filter (\<lambda>o'. py_in ALMATY_HUB (o_name o')) offices),
                      sel_distance_km = None, sel_fallback_used = True,
                      sel_reason = Fallback5050 ALMATY_HUB\<rparr>)
      else Inr \<lparr>sel_office = sort_key o_id offices ! nat (counter mod int (length offices)),
                sel_distance_km = None, sel_fallback_used = True,
                sel_reason = FallbackAll
                  (o_name (sort_key o_id offices ! nat (counter mod int (length offices))))\<rparr>)
   \<and> sorted (map o_id (sort_key o_id offices))
   \<and> mset (sort_key o_id offices) = mset offices"
proof -
  have even_iff: "(counter mod 2 = 0) = even counter" by presburger
  show ?thesis
    by (auto simp: select_fallback_office_def Let_def foldl_hub_step_astana
          foldl_hub_step_almaty even_iff filter_empty_conv split: list.splits option.splits)
qed

theorem select_fallback_office_spec_witness:
  "sel_office (projr (select_fallback_office 4 [office_almaty, office_astana, office_other]))
     = office_astana
   \<and> sel_office (projr (select_fallback_office 5 [office_almaty, office_astana, office_other]))
     = office_almaty
   \<and> sel_office (projr (select_fallback_office 5 [office_other, office_almaty]))
     = office_other"
proof -
  have a: "\<not> py_in ASTANA_HUB (o_name office_almaty)" "py_in ASTANA_HUB (o_name office_astana)"
     "\<not> py_in ASTANA_HUB (o_name office_other)"
    by (simp_all add: office_almaty_def office_astana_def office_other_def ASTANA_HUB_def
          ALMATY_HUB_def u_def)
  have b: "py_in ALMATY_HUB (o_name office_almaty)" "\<not> py_in ALMATY_HUB (o_name office_astana)"
     "\<not> py_in ALMATY_HUB (o_name office_other)"
    by (simp_all add: office_almaty_def office_astana_def office_other_def ASTANA_HUB_def
          ALMATY_HUB_def u_def)
  have s: "sort_key o_id [office_other, office_almaty] = [office_almaty, office_other]"
    by (simp add: office_almaty_def office_other_def)
  from select_fallback_office_spec [of 4 "[office_almaty, office_astana, office_other]", THEN conjunct1]
       select_fallback_office_spec [of 5 "[office_almaty, office_astana, office_other]", THEN conjunct1]
       select_fallback_office_spec [of 5 "[office_other, office_almaty]", THEN conjunct1]
  show ?thesis by (simp add: a b s del: sort_key_simps)
qed

section \<open>Classifier\<close>

lemma post_adjust_type [simp]: "ticket_type (post_adjust L a d) = ticket_type a"
  by (simp add: post_adjust_def Let_def)

lemma post_adjust_language [simp]: "language (post_adjust L a d) = language a"
  by (simp add: post_adjust_def Let_def)

lemma post_adjust_priority:
  "priority_score (post_adjust L a d) =
     (if ticket_type a = SPAM then priority_score a
      else if has_any_phrase (safe_lower L (strip d)) FRAUD_MARKERS then max (priority_score a) 9
      else if has_any_phrase (safe_lower L (strip d)) BLOCKED_MARKERS \<or> has_urgency L (strip d)
      then max (priority_score a) 8
      else priority_score a)"
  by (simp add: post_adjust_def Let_def)

lemma heuristic_type:
  "\<not> looks_like_spam L d \<Longrightarrow> ticket_type (heuristic_fallback L d) \<noteq> SPAM"
  by (simp add: heuristic_fallback_def Let_def)

lemma heuristic_priority:
  "1 \<le> priority_score (heuristic_fallback L d) \<and> priority_score (heuristic_fallback L d) \<le> 10"
  by (simp add: heuristic_fallback_def Let_def)

lemma map_to_analysis_priority:
  "map_to_analysis L m parsed = Some a \<Longrightarrow> 1 \<le> priority_score a \<and> priority_score a \<le> 10"
  by (auto simp: map_to_analysis_def split: option.splits)

lemma attempts_priority:
  "attempts L m api i n = Some a \<Longrightarrow> 1 \<le> priority_score a \<and> priority_score a \<le> 10"
proof (induction n arbitrary: i)
  case 0
  then show ?case by simp
next
  case (Suc n)
  then show ?case
    by (auto split: reply.splits option.splits dest: map_to_analysis_priority)
qed

lemma analyze_range:
  "1 \<le> priority_score (analyze_ticket L self api d att)
   \<and> priority_score (analyze_ticket L self api d att) \<le> 10"
  using attempts_priority [of L "model_name self" api 1 "nat (max_retries self)"]
        heuristic_priority [of L d]
  by (auto simp: analyze_ticket_def spam_result_def post_adjust_priority split: option.splits)

lemma analyze_floor:
  assumes "ticket_type (analyze_ticket L self api d att) \<noteq> SPAM"
  shows "(has_any_phrase (lower L (strip d)) FRAUD_MARKERS
            \<longrightarrow> 9 \<le> priority_score (analyze_ticket L self api d att))
       \<and> (has_any_phrase (lower L (strip d)) BLOCKED_MARKERS \<or> has_urgency L (strip d)
            \<longrightarrow> 8 \<le> priority_score (analyze_ticket L self api d att))"
  using assms heuristic_type [of L d]
  by (auto simp: analyze_ticket_def spam_result_def post_adjust_priority safe_lower_def
        split: option.splits if_splits)

lemma TICKET_TYPE_MAP_value: "TICKET_TYPE_MAP (TicketType_value t) = Some t"
  by (cases t) (simp_all add: TICKET_TYPE_MAP_def u_def)

lemma SENTIMENT_MAP_value: "SENTIMENT_MAP (Sentiment_value s) = Some s"
  by (cases s) (simp_all add: SENTIMENT_MAP_def u_def)

lemma LANGUAGE_MAP_value: "LANGUAGE_MAP (Language_value l) = Some l"
  by (cases l) (simp_all add: LANGUAGE_MAP_def u_def)

lemma TICKET_TYPE_MAP_Some: "TICKET_TYPE_MAP s = Some t \<Longrightarrow> s = TicketType_value t"
  by (auto simp: TICKET_TYPE_MAP_def split: if_splits)

lemma SENTIMENT_MAP_Some: "SENTIMENT_MAP s = Some t \<Longrightarrow> s = Sentiment_value t"
  by (auto simp: SENTIMENT_MAP_def split: if_splits)

lemma LANGUAGE_MAP_Some: "LANGUAGE_MAP s = Some t \<Longrightarrow> s = Language_value t"
  by (auto simp: LANGUAGE_MAP_def split: if_splits)

lemma enum_get_ticket_type:
  assumes "enum_get TICKET_TYPE_MAP v CONSULTATION = Some t"
  shows "(\<forall>t'. v = JStr (TicketType_value t') \<longrightarrow> t = t')
       \<and> ((\<forall>t'. v \<noteq> JStr (TicketType_value t')) \<longrightarrow> t = CONSULTATION)"
  using assms
  by (cases v) (auto simp: TICKET_TYPE_MAP_value split: option.splits dest: TICKET_TYPE_MAP_Some)

lemma enum_get_sentiment:
  assumes "enum_get SENTIMENT_MAP v NEUTRAL = Some t"
  shows "(\<forall>t'. v = JStr (Sentiment_value t') \<longrightarrow> t = t')
       \<and> ((\<forall>t'. v \<noteq> JStr (Sentiment_value t')) \<longrightarrow> t = NEUTRAL)"
  using assms
  by (cases v) (auto simp: SENTIMENT_MAP_value split: option.splits dest: SENTIMENT_MAP_Some)

lemma enum_get_language:
  assumes "enum_get LANGUAGE_MAP v RU = Some t"
  shows "(\<forall>t'. v = JStr (Language_value t') \<longrightarrow> t = t')
       \<and> ((\<forall>t'. v \<noteq> JStr (Language_value t')) \<longrightarrow> t = RU)"
  using assms
  by (cases v) (auto simp: LANGUAGE_MAP_value split: option.splits dest: LANGUAGE_MAP_Some)

lemma map_to_analysis_fields:
  assumes "map_to_analysis L m (JObj kv) = Some a"
  shows "enum_get TICKET_TYPE_MAP (dict_get kv (u ''ticket_type'') (JStr [])) CONSULTATION
           = Some (ticket_type a)
       \<and> enum_get SENTIMENT_MAP (dict_get kv (u ''sentiment'') (JStr [])) NEUTRAL
           = Some (sentiment a)
       \<and> enum_get LANGUAGE_MAP (dict_get kv (u ''language'') (JStr [])) RU
           = Some (language a)
       \<and> (\<exists>p. py_int L (dict_get kv (u ''priority_score'') (JInt 5)) = Some p
              \<and> priority_score a = max 1 (min 10 p))"
  using assms by (auto simp: map_to_analysis_def split: option.splits)

lemma fraud_text_lower: "map lower_cp fraud_text = fraud_text"
  by (simp add: fraud_text_def u_def lower_cp_def)

lemma fraud_text_strip: "strip fraud_text = fraud_text"
  by (simp add: fraud_text_def u_def strip_def isspace_def)

lemma fraud_text_no_url: "\<not> url_scan fraud_text"
  by (simp add: fraud_text_def u_def)

lemma fraud_text_not_spam: "\<not> looks_like_spam ref_lib fraud_text"
  by (simp add: looks_like_spam_def Let_def ref_lib_def fraud_text_lower fraud_text_no_url)
     (simp add: spam_markers2_def fraud_text_def u_def)

lemma fraud_text_heuristic_type: "ticket_type (heuristic_fallback ref_lib fraud_text) = FRAUD"
  using fraud_text_not_spam
  by (simp add: heuristic_fallback_def Let_def)
     (simp add: ref_lib_def fraud_text_lower fraud_words_def, simp add: fraud_text_def u_def)

lemma fraud_text_marker: "has_any_phrase (lower ref_lib (strip fraud_text)) FRAUD_MARKERS"
  by (simp add: fraud_text_strip ref_lib_def fraud_text_lower)
     (simp add: has_any_phrase_def FRAUD_MARKERS_def fraud_text_def u_def)

lemma odd_reply_maps:
  "map_to_analysis ref_lib (u ''gpt-4o-mini'') odd_reply =
     Some \<lparr>an_id = None, an_ticket_id = 0, ticket_type = CONSULTATION, sentiment = NEUTRAL,
           priority_score = 10, language = RU, summary = JStr [],
           llm_model = Some (u ''gpt-4o-mini'')\<rparr>"
  by (simp add: map_to_analysis_def odd_reply_def dict_get_def u_def TICKET_TYPE_MAP_def LANGUAGE_MAP_def)

text \<open>
  Claim C9.  For every input text, every adapter configuration and every sequence of
  replies of the model (a failed call, content that is not JSON, or any JSON value), the
  analysis that \<open>analyze_ticket\<close> returns has a priority between 1 and 10, and its ticket
  type, sentiment and language are members of their enums (their values are keys of the
  three maps).  When \<open>_map_to_analysis\<close> accepts a reply, a field holding a label of the
  enum gives that member and every other value gives the default: Consultation, Neutral,
  RU; the priority is the integer of the reply clamped to 1..10.  The post-adjustment
  keeps the ticket type and the language.
\<close>

theorem classifier_output_valid:
  "1 \<le> priority_score (analyze_ticket L self api d att)
   \<and> priority_score (analyze_ticket L self api d att) \<le> 10
   \<and> TICKET_TYPE_MAP (TicketType_value (ticket_type (analyze_ticket L self api d att)))
       = Some (ticket_type (analyze_ticket L self api d att))
   \<and> SENTIMENT_MAP (Sentiment_value (sentiment (analyze_ticket L self api d att)))
       = Some (sentiment (analyze_ticket L self api d att))
   \<and> LANGUAGE_MAP (Language_value (language (analyze_ticket L self api d att)))
       = Some (language (analyze_ticket L self api d att))
   \<and> (map_to_analysis L m (JObj kv) = Some a \<longrightarrow>
        (\<forall>t. dict_get kv (u ''ticket_type'') (JStr []) = JStr (TicketType_value t)
              \<longrightarrow> ticket_type a = t)
      \<and> ((\<forall>t. dict_get kv (u ''ticket_type'') (JStr []) \<noteq> JStr (TicketType_value t))
              \<longrightarrow> ticket_type a = CONSULTATION)
      \<and> (\<forall>s. dict_get kv (u ''sentiment'') (JStr []) = JStr (Sentiment_value s)
              \<longrightarrow> sentiment a = s)
      \<and> ((\<forall>s. dict_get kv (u ''sentiment'') (JStr []) \<noteq> JStr (Sentiment_value s))
              \<longrightarrow> sentiment a = NEUTRAL)
      \<and> (\<forall>l. dict_get kv (u ''language'') (JStr []) = JStr (Language_value l)
              \<longrightarrow> language a = l)
      \<and> ((\<forall>l. dict_get kv (u ''language'') (JStr []) \<noteq> JStr (Language_value l))
              \<longrightarrow> language a = RU)
      \<and> (\<exists>p. py_int L (dict_get kv (u ''priority_score'') (JInt 5)) = Some p
              \<and> priority_score a = max 1 (min 10 p)))
   \<and> ticket_type (post_adjust L a d) = ticket_type a
   \<and> language (post_adjust L a d) = language a"
proof -
  have m: "map_to_analysis L m (JObj kv) = Some a \<longrightarrow>
        (\<forall>t. dict_get kv (u ''ticket_type'') (JStr []) = JStr (TicketType_value t)
              \<longrightarrow> ticket_type a = t)
      \<and> ((\<forall>t. dict_get kv (u ''ticket_type'') (JStr []) \<noteq> JStr (TicketType_value t))
              \<longrightarrow> ticket_type a = CONSULTATION)
      \<and> (\<forall>s. dict_get kv (u ''sentiment'') (JStr []) = JStr (Sentiment_value s)
              \<longrightarrow> sentiment a = s)
      \<and> ((\<forall>s. dict_get kv (u ''sentiment'') (JStr []) \<noteq> JStr (Sentiment_value s))
              \<longrightarrow> sentiment a = NEUTRAL)
      \<and> (\<forall>l. dict_get kv (u ''language'') (JStr []) = JStr (Language_value l)
              \<longrightarrow> language a = l)
      \<and> ((\<forall>l. dict_get kv (u ''language'') (JStr []) \<noteq> JStr (Language_value l))
              \<longrightarrow> language a = RU)
      \<and> (\<exists>p. py_int L (dict_get kv (u ''priority_score'') (JInt 5)) = Some p
              \<and> priority_score a = max 1 (min 10 p))"
  proof
    assume s: "map_to_analysis L m (JObj kv) = Some a"
    note f = map_to_analysis_fields [OF s]
    from f enum_get_ticket_type [of "dict_get kv (u ''ticket_type'') (JStr [])" "ticket_type a"]
         enum_get_sentiment [of "dict_get kv (u ''sentiment'') (JStr [])" "sentiment a"]
         enum_get_language [of "dict_get kv (u ''language'') (JStr [])" "language a"]
    show "(\<forall>t. dict_get kv (u ''ticket_type'') (JStr []) = JStr (TicketType_value t)
              \<longrightarrow> ticket_type a = t)
      \<and> ((\<forall>t. dict_get kv (u ''ticket_type'') (JStr []) \<noteq> JStr (TicketType_value t))
              \<longrightarrow> ticket_type a = CONSULTATION)
      \<and> (\<forall>s. dict_get kv (u ''sentiment'') (JStr []) = JStr (Sentiment_value s)
              \<longrightarrow> sentiment a = s)
      \<and> ((\<forall>s. dict_get kv (u ''sentiment'') (JStr []) \<noteq> JStr (Sentiment_value s))
              \<longrightarrow> sentiment a = NEUTRAL)
      \<and> (\<forall>l. dict_get kv (u ''language'') (JStr []) = JStr (Language_value l)
              \<longrightarrow> language a = l)
      \<and> ((\<forall>l. dict_get kv (u ''language'') (JStr []) \<noteq> JStr (Language_value l))
              \<longrightarrow> language a = RU)
      \<and> (\<exists>p. py_int L (dict_get kv (u ''priority_score'') (JInt 5)) = Some p
              \<and> priority_score a = max 1 (min 10 p))"
      by blast
  qed
  from analyze_range [of L self api d att] m show ?thesis
    by (simp only: TICKET_TYPE_MAP_value SENTIMENT_MAP_value LANGUAGE_MAP_value
          post_adjust_type post_adjust_language simp_thms)
qed

theorem classifier_output_valid_witness:
  "(\<exists>a. map_to_analysis ref_lib (u ''gpt-4o-mini'') odd_reply = Some a
        \<and> ticket_type a = CONSULTATION \<and> priority_score a = 10)
   \<and> (\<forall>t. dict_get [(u ''ticket_type'', JStr (u ''Question'')), (u ''sentiment'', JInt 3),
                      (u ''priority_score'', JInt 42)] (u ''ticket_type'') (JStr [])
            \<noteq> JStr (TicketType_value t))
   \<and> priority_score (analyze_ticket ref_lib with_client (\<lambda>i. Parsed odd_reply) fraud_text None)
       = 10"
proof -
  let ?kv = "[(u ''ticket_type'', JStr (u ''Question'')), (u ''sentiment'', JInt 3),
              (u ''priority_score'', JInt 42)]"
  let ?a = "\<lparr>an_id = None, an_ticket_id = 0, ticket_type = CONSULTATION, sentiment = NEUTRAL,
           priority_score = 10, language = RU, summary = JStr [],
           llm_model = Some (u ''gpt-4o-mini'')\<rparr>"
  have m: "map_to_analysis ref_lib (u ''gpt-4o-mini'') (JObj ?kv) = Some ?a"
    using odd_reply_maps by (simp add: odd_reply_def)
  have n: "\<forall>t. dict_get ?kv (u ''ticket_type'') (JStr []) \<noteq> JStr (TicketType_value t)"
  proof
    fix t show "dict_get ?kv (u ''ticket_type'') (JStr []) \<noteq> JStr (TicketType_value t)"
      by (cases t) (simp_all add: dict_get_def u_def)
  qed
  note c = classifier_output_valid [of ref_lib with_client "\<lambda>i. Parsed odd_reply" fraud_text None
      "u ''gpt-4o-mini''" ?kv ?a]
  from c m n have ty: "ticket_type ?a = CONSULTATION" by blast
  have le: "priority_score (analyze_ticket ref_lib with_client (\<lambda>i. Parsed odd_reply) fraud_text None) \<le> 10"
    using c by blast
  have at: "attempts ref_lib (u ''gpt-4o-mini'') (\<lambda>i. Parsed odd_reply) 1 (nat 3) = Some ?a"
    using odd_reply_maps by (simp add: eval_nat_numeral)
  have ge: "10 \<le> priority_score (analyze_ticket ref_lib with_client (\<lambda>i. Parsed odd_reply) fraud_text None)"
    using fraud_text_not_spam at
    by (simp add: analyze_ticket_def with_client_def post_adjust_priority)
       (simp add: strip_def u_def isspace_def)
  from m n le ge show ?thesis unfolding odd_reply_def by auto
qed

text \<open>
  Claim C8, as the code has it.  A text that the spam heuristic matches is answered with
  the spam result, of priority 1, before any marker is looked at, and the post-adjustment
  leaves an analysis of type Spam as it is.  For every analysis returned with a type other
  than Spam: if the stripped, lowered text contains a fraud marker the priority is at least
  9, and if it contains a blocked-access marker or an urgency marker the priority is at
  least 8.
\<close>

theorem priority_floor_unless_spam:
  "(looks_like_spam L d \<longrightarrow> analyze_ticket L self api d att = spam_result)
   \<and> priority_score spam_result = 1
   \<and> (ticket_type (analyze_ticket L self api d att) \<noteq> SPAM \<longrightarrow>
        (has_any_phrase (lower L (strip d)) FRAUD_MARKERS
            \<longrightarrow> 9 \<le> priority_score (analyze_ticket L self api d att))
      \<and> (has_any_phrase (lower L (strip d)) BLOCKED_MARKERS \<or> has_urgency L (strip d)
            \<longrightarrow> 8 \<le> priority_score (analyze_ticket L self api d att)))"
proof (intro conjI impI)
  assume "looks_like_spam L d"
  then show "analyze_ticket L self api d att = spam_result" by (simp add: analyze_ticket_def)
next
  show "priority_score spam_result = 1" by (simp add: spam_result_def)
next
  assume "ticket_type (analyze_ticket L self api d att) \<noteq> SPAM"
     and "has_any_phrase (lower L (strip d)) FRAUD_MARKERS"
  with analyze_floor [of L self api d att]
  show "9 \<le> priority_score (analyze_ticket L self api d att)" by blast
next
  assume "ticket_type (analyze_ticket L self api d att) \<noteq> SPAM"
     and "has_any_phrase (lower L (strip d)) BLOCKED_MARKERS \<or> has_urgency L (strip d)"
  with analyze_floor [of L self api d att]
  show "8 \<le> priority_score (analyze_ticket L self api d att)" by blast
qed

theorem priority_floor_unless_spam_witness:
  "ticket_type (analyze_ticket ref_lib no_client (\<lambda>i. ApiError) fraud_text None) = FRAUD
   \<and> has_any_phrase (lower ref_lib (strip fraud_text)) FRAUD_MARKERS
   \<and> 9 \<le> priority_score (analyze_ticket ref_lib no_client (\<lambda>i. ApiError) fraud_text None)"
proof -
  have t: "ticket_type (analyze_ticket ref_lib no_client (\<lambda>i. ApiError) fraud_text None) = FRAUD"
    using fraud_text_not_spam
    by (simp add: analyze_ticket_def no_client_def fraud_text_heuristic_type)
  with priority_floor_unless_spam [of ref_lib fraud_text no_client "\<lambda>i. ApiError" None]
       fraud_text_marker
  show ?thesis by simp
qed

lemma fraud_spam_lower: "map lower_cp fraud_spam_text = fraud_spam_text"
  by (simp add: fraud_spam_text_def u_def lower_cp_def)

lemma fraud_spam_strip: "strip fraud_spam_text = fraud_spam_text"
  by (simp add: fraud_spam_text_def u_def strip_def isspace_def)

lemma fraud_spam_is_spam: "looks_like_spam L fraud_spam_text = True" if "lower L fraud_spam_text = fraud_spam_text" for L
  using that by (simp add: looks_like_spam_def Let_def spam_markers2_def fraud_spam_text_def u_def)

text \<open>
  The text "fraud prajs" contains the fraud marker "fraud" and the spam marker "prajs";
  it is classified as spam with priority 1, without a client and also when the model
  answers with type Fraud and priority 10.
\<close>

theorem fraud_marker_spam_counterexample:
  "py_in (u ''fraud'') fraud_spam_text
   \<and> has_any_phrase (lower ref_lib (strip fraud_spam_text)) FRAUD_MARKERS
   \<and> priority_score (analyze_ticket ref_lib no_client (\<lambda>i. ApiError) fraud_spam_text None) = 1
   \<and> priority_score (analyze_ticket ref_lib with_client
        (\<lambda>i. Parsed (JObj [(u ''ticket_type'', JStr (TicketType_value FRAUD)),
                             (u ''priority_score'', JInt 10)])) fraud_spam_text None) = 1"
proof -
  have l: "lower ref_lib fraud_spam_text = fraud_spam_text"
    by (simp add: ref_lib_def fraud_spam_lower)
  have a: "py_in (u ''fraud'') fraud_spam_text"
    by (simp add: fraud_spam_text_def u_def)
  have b: "has_any_phrase (lower ref_lib (strip fraud_spam_text)) FRAUD_MARKERS"
    by (simp add: fraud_spam_strip l) (simp add: has_any_phrase_def FRAUD_MARKERS_def fraud_spam_text_def u_def)
  have s: "\<And>self api. analyze_ticket ref_lib self api fraud_spam_text None = spam_result"
    using fraud_spam_is_spam [OF l] by (simp add: analyze_ticket_def)
  show ?thesis using a b by (simp add: s spam_result_def)
qed

section \<open>The pipeline\<close>

lemma io_bind_apply:
  "io_bind m f s = (case m s of (Inl e, s') \<Rightarrow> (Inl e, s') | (Inr a, s') \<Rightarrow> f a s')"
  by (simp add: io_bind_def)

lemma io_return_apply: "io_return x s = (Inr x, s)"
  by (simp add: io_return_def)

lemma io_raise_apply: "io_raise e s = (Inl e, s)"
  by (simp add: io_raise_def)

lemma of_result_apply: "of_result r s = (r, s)"
  by (cases r) (simp_all add: of_result_def io_return_def io_raise_def)

lemma port_apply: "port p (t, w) = (fst (p w), (t, snd (p w)))"
  by (simp add: port_def split: prod.splits)

lemma get_ticket_apply: "get_ticket (t, w) = (Inr t, (t, w))"
  by (simp add: get_ticket_def)

lemma modify_ticket_apply: "modify_ticket f (t, w) = (Inr (), (f t, w))"
  by (simp add: modify_ticket_def)

lemmas io_simps = io_bind_apply io_return_apply io_raise_apply of_result_apply port_apply
  get_ticket_apply modify_ticket_apply

lemma keepsD: "keeps Q m \<Longrightarrow> Q s \<Longrightarrow> m s = (r, s') \<Longrightarrow> Q s'"
  by (auto simp: keeps_def)

lemma keeps_bind: "keeps Q m \<Longrightarrow> (\<And>a. keeps Q (f a)) \<Longrightarrow> keeps Q (io_bind m f)"
  unfolding keeps_def io_bind_def
  by (auto split: prod.splits sum.splits)

lemma keeps_return: "keeps Q (io_return x)"
  by (simp add: keeps_def io_return_def)

lemma keeps_raise: "keeps Q (io_raise e)"
  by (simp add: keeps_def io_raise_def)

lemma keeps_of_result: "keeps Q (of_result r)"
  by (simp add: keeps_def of_result_apply)

lemma keeps_get_ticket: "keeps Q get_ticket"
  by (simp add: keeps_def get_ticket_def split: prod.splits)

lemma keeps_port_ticket: "keeps (\<lambda>(t, w). R t) (port p)"
  by (simp add: keeps_def port_def split: prod.splits)

lemma keeps_modify_ticket: "(\<And>t. R t \<Longrightarrow> R (f t)) \<Longrightarrow> keeps (\<lambda>(t, w). R t) (modify_ticket f)"
  by (simp add: keeps_def modify_ticket_def split: prod.splits)

lemmas keeps_intros = keeps_bind keeps_return keeps_raise keeps_of_result keeps_get_ticket

lemma keeps_identity_analyze: "keeps (\<lambda>(t, w). same_identity t0 t) (analyze_step P)"
  unfolding analyze_step_def Let_def
  by (intro keeps_intros keeps_port_ticket)

lemma keeps_identity_geocode: "keeps (\<lambda>(t, w). same_identity t0 t) (geocode_step L P)"
  unfolding geocode_step_def Let_def
  by (auto intro!: keeps_intros keeps_port_ticket keeps_modify_ticket
        simp: same_identity_def split: option.splits list.splits)

lemma keeps_identity_select: "keeps (\<lambda>(t, w). same_identity t0 t) (select_office_step P)"
  unfolding select_office_step_def
  by (auto intro!: keeps_intros keeps_port_ticket split: option.splits)

lemma keeps_identity_filter: "keeps (\<lambda>(t, w). same_identity t0 t) (filter_step P req sel)"
  unfolding filter_step_def Let_def
  by (auto intro!: keeps_intros keeps_port_ticket)

lemma keeps_identity_assign: "keeps (\<lambda>(t, w). same_identity t0 t) (assign_step P a req sel el)"
  unfolding assign_step_def Let_def
  by (auto intro!: keeps_intros keeps_port_ticket split: prod.splits)

lemma keeps_identity_body: "keeps (\<lambda>(t, w). same_identity t0 t) (execute_body L P)"
  unfolding execute_body_def Let_def
  by (auto intro!: keeps_intros keeps_identity_analyze keeps_identity_geocode
        keeps_identity_select keeps_identity_filter keeps_identity_assign)

lemma execute_body_identity:
  assumes "execute_body L P (ticket, w) = (r, (ticket', w'))"
  shows "t_id ticket' = t_id ticket \<and> t_guid ticket' = t_guid ticket"
proof -
  have "(\<lambda>(t, w). same_identity ticket t) (ticket, w)" by (simp add: same_identity_def)
  from keepsD [OF keeps_identity_body this assms] show ?thesis
    by (simp add: same_identity_def)
qed

lemmas sql_defs = sql_ports_def on_db_def on_ext_def SqlAnalyticsRepository_save_def
  SqlAssignmentRepository_save_def SqlTicketRepository_update_def SqlOfficeRepository_get_all_def
  SqlManagerRepository_get_by_office_def SqlManagerRepository_get_all_def
  SqlManagerRepository_increment_load_def SqlRoundRobinRepository_increment_counter_def

lemma ticket_1_fields:
  "t_id ticket_1 = 1" "t_guid ticket_1 = u ''t-1''" "t_description ticket_1 = Some (u ''hello'')"
  "t_attachments ticket_1 = None" "t_segment ticket_1 = MASS"
  "t_client_location ticket_1 = Some \<lparr>latitude = 43, longitude = 77\<rparr>"
  by (simp_all add: ticket_1_def)

lemma ticket_2_fields:
  "t_id ticket_2 = 2" "t_guid ticket_2 = u ''t-2''" "t_description ticket_2 = Some (u ''price list'')"
  "t_attachments ticket_2 = None"
  by (simp_all add: ticket_2_def)

lemma nearest_A:
  "select_nearest_office \<lparr>latitude = 43, longitude = 77\<rparr> [office_A]
     = Inr \<lparr>sel_office = office_A, sel_distance_km = Some 0, sel_fallback_used = False,
             sel_reason = NearestOffice (u ''A'') 0\<rparr>"
  by (simp add: select_nearest_office_def haversine_self round2_zero office_A_def)

lemma run_analyze:
  "analyze_step (sql_ports llm_consultation geocoder_none) (ticket_1, (db_0, []))
     = (Inr (consultation\<lparr>an_ticket_id := 1\<rparr>), (ticket_1, (db_analysed, [])))"
  by (simp add: analyze_step_def io_simps sql_defs llm_consultation_def ticket_1_fields
        or_else_def next_id_def Let_def db_analysed_def)
     (simp add: db_0_def ticket_1_fields ticket_2_fields consultation_def)

lemma run_geocode:
  "geocode_step L (sql_ports llm_consultation geocoder_none) (ticket_1, (db_analysed, []))
     = (Inr (), (ticket_1, (db_analysed, [])))"
  by (simp add: geocode_step_def io_simps is_address_known_def ticket_1_fields)

lemma run_select:
  "select_office_step (sql_ports llm_consultation geocoder_none) (ticket_1, (db_analysed, []))
     = (Inr sel_A, (ticket_1, (db_analysed, [])))"
  by (simp add: select_office_step_def io_simps sql_defs ticket_1_fields db_analysed_def
        db_0_def nearest_A sel_A_def)

lemma run_filter:
  "filter_step (sql_ports llm_consultation geocoder_none)
       (determine_required_skills MASS CONSULTATION RU) sel_A (ticket_1, (db_analysed, []))
     = (Inr [mgr 1 0, mgr 2 0], (ticket_1, (db_analysed, [])))"
  by (simp add: filter_step_def io_simps sql_defs Let_def sel_A_def office_A_def
        db_analysed_def db_0_def mgr_def manager_satisfies_def determine_required_skills_def)

lemma rr_key_of_ticket_id [simp]:
  "rr_key_of sel req (a\<lparr>an_ticket_id := i\<rparr>) = rr_key_of sel req a"
  by (simp add: rr_key_of_def)

lemma sorted_two: "sort_key load_id_key [mgr 1 0, mgr 2 0] = [mgr 1 0, mgr 2 0]"
  by (simp add: load_id_key_def mgr_def)

lemma pick_first: "pick_next [mgr 1 0, mgr 2 0] 0 = Inr (mgr 1 0, 1)"
  by (simp add: pick_next_def sorted_two Let_def del: sort_key_simps)

lemma run_assign:
  "assign_step (sql_ports llm_consultation geocoder_none) (consultation\<lparr>an_ticket_id := 1\<rparr>)
       (determine_required_skills MASS CONSULTATION RU) sel_A [mgr 1 0, mgr 2 0]
       (ticket_1, (db_analysed, []))
     = (Inr \<lparr>r_ticket_id = 1, r_ticket_guid = u ''t-1'', r_assigned_manager = Some (u ''M''),
         r_assigned_office = Some (u ''A''), r_distance_km = Some 0, r_fallback_used = False,
         r_error = None\<rparr>, (ticket_1, (db_assigned, [])))"
  apply (simp add: assign_step_def io_simps Let_def sorted_two pick_first del: sort_key_simps)
  apply (simp add: sql_defs io_simps db_analysed_def db_0_def pick_first ticket_1_fields
       ticket_2_fields next_id_def Let_def)
  apply (simp add: sel_A_def mgr_def office_A_def db_assigned_def ticket_1_fields)
  done

lemma consultation_fields:
  "ticket_type (consultation\<lparr>an_ticket_id := 1\<rparr>) = CONSULTATION"
  "language (consultation\<lparr>an_ticket_id := 1\<rparr>) = RU"
  by (simp_all add: consultation_def)

lemma first_run:
  "execute ref_lib (sql_ports llm_consultation geocoder_none) ticket_1 (db_0, [])
     = (\<lparr>r_ticket_id = 1, r_ticket_guid = u ''t-1'', r_assigned_manager = Some (u ''M''),
         r_assigned_office = Some (u ''A''), r_distance_km = Some 0, r_fallback_used = False,
         r_error = None\<rparr>, ticket_1, (db_assigned, []))"
  by (simp add: execute_def execute_body_def io_bind_apply get_ticket_apply io_return_apply
        run_analyze run_geocode run_select run_filter run_assign ticket_1_fields
        consultation_fields Let_def)

lemma sql_ports_fields:
  "llm_analyze_ticket (sql_ports llm geo) = (\<lambda>d a. on_ext (llm d a))"
  "analytics_save (sql_ports llm geo) = (\<lambda>a. on_db (SqlAnalyticsRepository_save a))"
  "geocode (sql_ports llm geo) = (\<lambda>a. on_ext (geo a))"
  "tickets_update (sql_ports llm geo) = (\<lambda>t. on_db (SqlTicketRepository_update t))"
  "offices_get_all (sql_ports llm geo) = on_db SqlOfficeRepository_get_all"
  "rr_increment_counter (sql_ports llm geo) = (\<lambda>k. on_db (SqlRoundRobinRepository_increment_counter k))"
  "managers_get_by_office (sql_ports llm geo) = (\<lambda>i. on_db (SqlManagerRepository_get_by_office i))"
  "managers_get_all (sql_ports llm geo) = on_db SqlManagerRepository_get_all"
  "assignments_save (sql_ports llm geo) = (\<lambda>a. on_db (SqlAssignmentRepository_save a))"
  "managers_increment_load (sql_ports llm geo) = (\<lambda>i. on_db (SqlManagerRepository_increment_load i))"
  by (simp_all add: sql_ports_def)

lemma on_db_apply: "on_db p (d, x) = (fst (p d), (snd (p d), x))"
  by (simp add: on_db_def split: prod.splits)

lemma on_ext_apply: "on_ext p (d, x) = (fst (p x), (d, snd (p x)))"
  by (simp add: on_ext_def split: prod.splits)

lemma analyzed_ticket_rejected:
  assumes "t_id ticket \<in> set (map an_ticket_id (analytics_tbl d))"
  shows "\<exists>e x'. execute L (sql_ports llm geo) ticket (d, x)
           = (error_result ticket e, ticket, (d, x'))"
proof (cases "llm (or_else (t_description ticket) []) (t_attachments ticket) x")
  case (Pair res x')
  show ?thesis
  proof (cases res)
    case (Inl e)
    with Pair have "execute L (sql_ports llm geo) ticket (d, x) = (error_result ticket e, ticket, (d, x'))"
      by (simp add: execute_def execute_body_def analyze_step_def io_simps sql_ports_fields
            on_ext_apply)
    then show ?thesis by blast
  next
    case (Inr a)
    with Pair assms have "execute L (sql_ports llm geo) ticket (d, x)
       = (error_result ticket (unique_violation (u ''ticket_analytics.ticket_id'')), ticket, (d, x'))"
      by (simp add: execute_def execute_body_def analyze_step_def io_simps sql_ports_fields
            on_ext_apply on_db_apply SqlAnalyticsRepository_save_def Let_def)
    then show ?thesis by blast
  qed
qed

lemma keeps_on_db: "(\<And>d. Qd d \<Longrightarrow> Qd (snd (p d))) \<Longrightarrow> keeps (of_db Qd) (port (on_db p))"
  by (simp add: keeps_def of_db_def port_def on_db_def split: prod.splits) (metis snd_conv)

lemma keeps_on_ext: "keeps (of_db Qd) (port (on_ext p))"
  by (auto simp: keeps_def of_db_def port_def on_ext_def split: prod.splits)

lemma keeps_modify_of_db: "keeps (of_db Qd) (modify_ticket f)"
  by (simp add: keeps_def of_db_def modify_ticket_def split: prod.splits)

lemma keeps_geocode_sql:
  assumes "\<And>d t. Qd d \<Longrightarrow> Qd (d\<lparr>tickets_tbl := t\<rparr>)"
  shows "keeps (of_db Qd) (geocode_step L (sql_ports llm geo))"
  unfolding geocode_step_def Let_def sql_ports_fields
  by (auto intro!: keeps_intros keeps_on_db keeps_on_ext keeps_modify_of_db assms
        simp: SqlTicketRepository_update_def split: option.splits list.splits)

lemma keeps_select_sql:
  assumes "\<And>d r. Qd d \<Longrightarrow> Qd (d\<lparr>rr_tbl := r\<rparr>)"
  shows "keeps (of_db Qd) (select_office_step (sql_ports llm geo))"
  unfolding select_office_step_def sql_ports_fields
  by (auto intro!: keeps_intros keeps_on_db assms
        simp: SqlOfficeRepository_get_all_def SqlRoundRobinRepository_increment_counter_def
        split: option.splits)

lemma keeps_filter_sql: "keeps (of_db Qd) (filter_step (sql_ports llm geo) req sel)"
  unfolding filter_step_def Let_def sql_ports_fields
  by (auto intro!: keeps_intros keeps_on_db
        simp: SqlManagerRepository_get_by_office_def SqlManagerRepository_get_all_def)

lemma keeps_assign_sql:
  assumes "\<And>d r. Qd d \<Longrightarrow> Qd (d\<lparr>rr_tbl := r\<rparr>)"
      and "\<And>d m. Qd d \<Longrightarrow> Qd (d\<lparr>managers_tbl := m\<rparr>)"
      and "\<And>d a. Qd d \<Longrightarrow> Qd (d\<lparr>assignments_tbl := a\<rparr>)"
  shows "keeps (of_db Qd) (assign_step (sql_ports llm geo) a req sel el)"
  unfolding assign_step_def Let_def sql_ports_fields
  by (auto intro!: keeps_intros keeps_on_db assms
        simp: SqlRoundRobinRepository_increment_counter_def SqlAssignmentRepository_save_def
          SqlManagerRepository_increment_load_def Let_def
        split: option.splits prod.splits)

lemma ensures_fromD: "ensures_from Pre Q m \<Longrightarrow> Pre s \<Longrightarrow> m s = (Inr r, s') \<Longrightarrow> Q s'"
  by (auto simp: ensures_from_def)

lemma ensures_from_bind:
  assumes "ensures_from Pre Q m" and "\<And>a. keeps Q (f a)"
  shows "ensures_from Pre Q (io_bind m f)"
  unfolding ensures_from_def
proof (intro allI impI)
  fix s r s' assume p: "Pre s" and b: "io_bind m f s = (Inr r, s')"
  obtain res s1 where m: "m s = (res, s1)" by (metis surj_pair)
  show "Q s'"
  proof (cases res)
    case (Inl e)
    with m b show ?thesis by (simp add: io_bind_def)
  next
    case (Inr a)
    with m b have f: "f a s1 = (Inr r, s')" by (simp add: io_bind_def)
    from ensures_fromD [OF assms(1) p] m Inr have "Q s1" by simp
    from keepsD [OF assms(2) this f] show ?thesis .
  qed
qed

lemma analyze_sql_saves:
  "ensures_from (\<lambda>(t, w). t_id t = i) (of_db (\<lambda>d. i \<in> set (map an_ticket_id (analytics_tbl d))))
     (analyze_step (sql_ports llm geo))"
  unfolding ensures_from_def
  by (auto simp: analyze_step_def io_simps sql_ports_fields on_ext_apply on_db_apply
        SqlAnalyticsRepository_save_def Let_def of_db_def
        split: prod.splits sum.splits if_splits)

lemma body_sql_saves:
  "ensures_from (\<lambda>(t, w). t_id t = i) (of_db (\<lambda>d. i \<in> set (map an_ticket_id (analytics_tbl d))))
     (execute_body L (sql_ports llm geo))"
  unfolding execute_body_def
  by (rule ensures_from_bind [OF analyze_sql_saves])
     (auto intro!: keeps_intros keeps_geocode_sql keeps_select_sql keeps_filter_sql
        keeps_assign_sql simp: Let_def)

lemma assigned_then_analysed:
  assumes "execute L (sql_ports llm geo) ticket (d, x) = (r1, ticket1, (d1, x1))"
      and "r_assigned_manager r1 \<noteq> None"
  shows "t_id ticket \<in> set (map an_ticket_id (analytics_tbl d1)) \<and> t_id ticket1 = t_id ticket
         \<and> t_guid ticket1 = t_guid ticket"
proof -
  obtain res t' d' x' where b: "execute_body L (sql_ports llm geo) (ticket, (d, x)) = (res, (t', (d', x')))"
    by (metis surj_pair)
  show ?thesis
  proof (cases res)
    case (Inl e)
    with b assms(1) have "r1 = error_result t' e" by (auto simp: execute_def)
    with assms(2) show ?thesis by (simp add: error_result_def)
  next
    case (Inr r)
    with b assms have e: "ticket1 = t'" "d1 = d'" by (simp_all add: execute_def)
    have "of_db (\<lambda>d. t_id ticket \<in> set (map an_ticket_id (analytics_tbl d))) (t', (d', x'))"
      using ensures_fromD [OF body_sql_saves [of "t_id ticket" L llm geo], of "(ticket, (d, x))" r "(t', (d', x'))"]
            b Inr by simp
    with e execute_body_identity [OF b] show ?thesis by (simp add: of_db_def)
  qed
qed


















text \<open>
  Claim C2, as the code has it.  The pipeline has no check for an existing assignment:
  every run starts by calling the classifier and saving an analysis.  Over the SQL
  repositories, after a run that assigned the ticket, a second run on the ticket and the
  database that the first one left changes no table (so the stored analysis and
  assignment are unchanged, no row is duplicated and no counter is advanced) and leaves
  the ticket object as it is, but it returns an error result: its error field carries
  the text of an exception (the unique constraint on the ticket id of the analytics
  table, or the exception of the classifier), with manager, office and distance absent.
\<close>

theorem second_execution_rejected:
  assumes "execute L (sql_ports llm geo) ticket (d, x) = (r1, ticket1, (d1, x1))"
      and "r_assigned_manager r1 \<noteq> None"
  shows "\<exists>e x2. execute L (sql_ports llm geo) ticket1 (d1, x1)
           = (\<lparr>r_ticket_id = t_id ticket, r_ticket_guid = t_guid ticket,
               r_assigned_manager = None, r_assigned_office = None, r_distance_km = None,
               r_fallback_used = False, r_error = Some (str_of e)\<rparr>, ticket1, (d1, x2))"
proof -
  from assigned_then_analysed [OF assms]
  have a: "t_id ticket1 \<in> set (map an_ticket_id (analytics_tbl d1))"
    and i: "t_id ticket1 = t_id ticket" "t_guid ticket1 = t_guid ticket" by simp_all
  from analyzed_ticket_rejected [OF a, of L llm geo x1] i show ?thesis
    by (simp add: error_result_def)
qed

theorem second_execution_rejected_witness:
  "r_assigned_manager (fst (execute ref_lib (sql_ports llm_consultation geocoder_none)
       ticket_1 (db_0, []))) \<noteq> None
   \<and> (\<exists>e x2. execute ref_lib (sql_ports llm_consultation geocoder_none) ticket_1 (db_assigned, [])
           = (\<lparr>r_ticket_id = 1, r_ticket_guid = u ''t-1'',
               r_assigned_manager = None, r_assigned_office = None, r_distance_km = None,
               r_fallback_used = False, r_error = Some (str_of e)\<rparr>, ticket_1,
              (db_assigned, x2)))"
  using second_execution_rejected [OF first_run] first_run
  by (simp add: ticket_1_fields)

text \<open>
  In the database where ticket 1 has its analysis and its assignment, a run on ticket 1
  returns an error result.
\<close>

theorem second_execution_counterexample:
  "a_ticket_id (hd (assignments_tbl db_assigned)) = t_id ticket_1
   \<and> an_ticket_id (hd (analytics_tbl db_assigned)) = t_id ticket_1
   \<and> execute ref_lib (sql_ports llm_consultation geocoder_none) ticket_1 (db_assigned, [])
     = (\<lparr>r_ticket_id = 1, r_ticket_guid = u ''t-1'', r_assigned_manager = None,
         r_assigned_office = None, r_distance_km = None, r_fallback_used = False,
         r_error = Some (str_of (unique_violation (u ''ticket_analytics.ticket_id'')))\<rparr>,
        ticket_1, (db_assigned, []))"
  by (simp add: execute_def execute_body_def analyze_step_def io_simps sql_ports_fields
        on_ext_apply on_db_apply SqlAnalyticsRepository_save_def Let_def llm_consultation_def
        db_assigned_def ticket_1_fields error_result_def consultation_def)



end
